theory Spec2Isabelle
  imports Main "HOL-Library.Word"
begin

unbundle bit_operations_syntax

section \<open>Platform vocabulary used by boot.c\<close>

text \<open>
  The x64 build is modelled (first branch of the architecture selection, boot.c lines 29-31):
  \<open>UINTN\<close> and \<open>EFI_STATUS\<close> are 64 bits wide. The status constants and \<open>EFI_ERROR\<close> come
  from the UEFI headers, which are not among the repository's sources; they are written here
  with the encoding of the UEFI specification (error codes have the top bit set).
\<close>

type_synonym UINT8 = "8 word"
type_synonym EFI_STATUS = "64 word"
type_synonym EFI_HANDLE = nat

abbreviation EFI_SUCCESS :: EFI_STATUS where "EFI_SUCCESS \<equiv> 0"
abbreviation EFI_LOAD_ERROR :: EFI_STATUS where "EFI_LOAD_ERROR \<equiv> 0x8000000000000001"
abbreviation EFI_UNSUPPORTED :: EFI_STATUS where "EFI_UNSUPPORTED \<equiv> 0x8000000000000003"
abbreviation EFI_BUFFER_TOO_SMALL :: EFI_STATUS where "EFI_BUFFER_TOO_SMALL \<equiv> 0x8000000000000005"
abbreviation EFI_NOT_READY :: EFI_STATUS where "EFI_NOT_READY \<equiv> 0x8000000000000006"
abbreviation EFI_DEVICE_ERROR :: EFI_STATUS where "EFI_DEVICE_ERROR \<equiv> 0x8000000000000007"
abbreviation EFI_NOT_FOUND :: EFI_STATUS where "EFI_NOT_FOUND \<equiv> 0x800000000000000E"
abbreviation EFI_ACCESS_DENIED :: EFI_STATUS where "EFI_ACCESS_DENIED \<equiv> 0x800000000000000F"
abbreviation EFI_NO_MAPPING :: EFI_STATUS where "EFI_NO_MAPPING \<equiv> 0x8000000000000011"
abbreviation EFI_SECURITY_VIOLATION :: EFI_STATUS where "EFI_SECURITY_VIOLATION \<equiv> 0x800000000000001A"

text \<open>\<open>#define EFI_ERROR(a) (((INTN)(a)) < 0)\<close>\<close>

definition EFI_ERROR :: "EFI_STATUS \<Rightarrow> bool" where
  "EFI_ERROR a = (sint a < 0)"

text \<open>\<open>EFI_MEMORY_TYPE\<close>: the one value that \<open>efi_main\<close> compares against (line 417).\<close>

abbreviation EfiBootServicesCode :: nat where "EfiBootServicesCode \<equiv> 3"

subsection \<open>Device paths\<close>

text \<open>
  A device path is the sequence of its nodes (type, sub-type, payload bytes); the end node is
  implicit. \<open>DevicePathFromHandle\<close> returning \<open>NULL\<close> is not modelled.
\<close>

type_synonym device_path_node = "UINT8 \<times> UINT8 \<times> UINT8 list"
type_synonym EFI_DEVICE_PATH = "device_path_node list"

text \<open>
  Modelled from the spec: \<open>CompareDevicePaths\<close> is declared in boot.h and defined outside
  boot.c. The spec calls it "a byte-for-byte structural comparison, not a semantic one";
  \<open>efi_main\<close> only tests its result against 0.
\<close>

definition CompareDevicePaths :: "EFI_DEVICE_PATH \<Rightarrow> EFI_DEVICE_PATH \<Rightarrow> int" where
  "CompareDevicePaths dp1 dp2 = (if dp1 = dp2 then 0 else 1)"

text \<open>
  Modelled from the spec: \<open>GetParentDevice\<close> is defined outside boot.c. The spec: "derive the
  parent by structurally truncating the last device-path node (partition node) -- this is a
  pure, stateless transform".
\<close>

definition GetParentDevice :: "EFI_DEVICE_PATH \<Rightarrow> EFI_DEVICE_PATH" where
  "GetParentDevice DevicePath = butlast DevicePath"

subsection \<open>Memory comparison\<close>

text \<open>
  \<open>CompareMem\<close> is a routine of the firmware library: its result is 0 exactly when the
  first \<open>Len\<close> bytes agree, and \<open>efi_main\<close> only tests the result against 0. A buffer is
  the list of its bytes; bytes past the end of a modelled buffer never compare equal.
\<close>

definition CompareMem :: "UINT8 list \<Rightarrow> UINT8 list \<Rightarrow> nat \<Rightarrow> int" where
  "CompareMem Dest Src Len = (if take Len Dest = take Len Src then 0 else 1)"

section \<open>Console and firmware calls as a trace\<close>

text \<open>
  Every observable step of a run is recorded as an event: the boot.c line that performs it
  and the action. Format arguments and console colours are not recorded; a trailing or
  leading newline of a format string is dropped.
\<close>

datatype image = CompanionDriver nat | NextStageLoader

datatype action =
    PrintInfo string
  | PrintWarning string
  | PrintError string
  | Print string
  | UnloadImage EFI_HANDLE
  | LoadImage image
  | StartImage image
  | ConnectController nat
  | OpenVolume nat
  | Stall nat

type_synonym event = "nat \<times> action"
type_synonym outcome = "EFI_STATUS \<times> event list"

definition emit :: "event list \<Rightarrow> outcome \<Rightarrow> outcome" where
  "emit evs r = (fst r, evs @ snd r)"

section \<open>What the firmware answers\<close>

text \<open>
  One entry of the array returned by \<open>OpenProtocolInformation\<close> (line 162), with what the
  firmware answers when \<open>UnloadDriver\<close> queries it: the status of opening the driver binding
  of \<open>AgentHandle\<close> (line 170), the binding's fields, and the status of \<open>UnloadImage\<close> on the
  binding's image (line 178).
\<close>

record open_info_entry =
  AgentHandle :: EFI_HANDLE
  BindingStatus :: EFI_STATUS
  Version :: "32 word"
  ImageHandle :: EFI_HANDLE
  UnloadStatus :: EFI_STATUS

text \<open>
  One enumerated disk-I/O handle with the firmware's answers for it: its device path
  (line 316), the status of opening its block-I/O interface (line 333), whether the block
  buffer could be allocated (line 337), the status of \<open>ReadBlocks\<close> and the buffer contents
  after the call (line 340), the status of the file-system test (line 362), and the answer
  to \<open>OpenProtocolInformation\<close> on it (line 162).
\<close>

record disk_handle =
  DevicePath :: EFI_DEVICE_PATH
  BlockIoStatus :: EFI_STATUS
  AllocOk :: bool
  ReadStatus :: EFI_STATUS
  ReadBuffer :: "UINT8 list"
  FsTestStatus :: EFI_STATUS
  OpenInfoStatus :: EFI_STATUS
  OpenInfoList :: "open_info_entry list"

text \<open>
  The firmware's answers to the other calls of \<open>efi_main\<close>, in the order of the calls.
  \<open>BootDevicePath\<close> is the device path of \<open>LoadedImage->DeviceHandle\<close> (line 297).
  \<open>OpenVolumeStatus fw Try\<close> is the status of the open attempt made with loop counter \<open>Try\<close>
  (line 450). \<open>LoaderImage\<close> is the memory at \<open>ImageBase\<close> of the next-stage image, its
  length is \<open>ImageSize\<close>.
\<close>

record firmware =
  SecureBootStatus :: int
  LoadedImageStatus :: EFI_STATUS
  BootDevicePath :: EFI_DEVICE_PATH
  LocateStatus :: EFI_STATUS
  Handles :: "disk_handle list"
  DriverPathOk :: bool
  DriverLoadStatus :: EFI_STATUS
  DriverImageStatus :: EFI_STATUS
  DriverImageCodeType :: nat
  DriverStartStatus :: EFI_STATUS
  ConnectStatus :: EFI_STATUS
  OpenVolumeStatus :: "nat \<Rightarrow> EFI_STATUS"
  OpenRootStatus :: EFI_STATUS
  RootIsNull :: bool
  VolumeInfoAllocOk :: bool
  GetInfoStatus :: EFI_STATUS
  GetInfoSize :: nat
  GetInfoRetryStatus :: EFI_STATUS
  SetPathCaseStatus :: EFI_STATUS
  LoaderPathOk :: bool
  LoaderLoadStatus :: EFI_STATUS
  LoaderImageStatus :: EFI_STATUS
  LoaderImage :: "UINT8 list"
  LoaderStartStatus :: EFI_STATUS

text \<open>
  Build-time constants: whether \<open>_DEBUG\<close> is defined, and the macros \<open>NUM_RETRIES\<close>, \<open>DELAY\<close>
  and \<open>FILE_INFO_SIZE\<close> of boot.h, which is not among the sources; they are parameters.
  \<open>DELAY\<close> is used as a C \<open>int\<close>: line 457 prints it with \<open>%d\<close> and line 458 multiplies it
  by the \<open>int\<close> constant 1000000.
\<close>

record build_config =
  DEBUG :: bool
  NUM_RETRIES :: nat
  DELAY :: int
  FILE_INFO_SIZE :: nat

section \<open>UnloadDriver (boot.c lines 151-187)\<close>

function UnloadDriver_loop :: "open_info_entry list \<Rightarrow> nat \<Rightarrow> outcome" where
  "UnloadDriver_loop OpenInfo i =
     (if i < length OpenInfo then
        (if EFI_ERROR (BindingStatus (OpenInfo ! i)) then UnloadDriver_loop OpenInfo (i + 1)
         else emit [(177, PrintWarning (''Unloading existing '%s v0x%x'' @ [CHR 0x27])),
                    (178, UnloadImage (ImageHandle (OpenInfo ! i)))]
                (if EFI_ERROR (UnloadStatus (OpenInfo ! i))
                 then emit [(180, PrintWarning ''  Could not unload driver: %r'')]
                        (UnloadDriver_loop OpenInfo (i + 1))
                 else (EFI_SUCCESS, [])))
      else (EFI_NOT_FOUND, []))"
  by pat_completeness auto
termination
  by (relation "measure (\<lambda>(OpenInfo, i). length OpenInfo - i)") auto

definition UnloadDriver :: "disk_handle \<Rightarrow> outcome" where
  "UnloadDriver FileSystemHandle =
     (if EFI_ERROR (OpenInfoStatus FileSystemHandle) then (EFI_NOT_FOUND, [])
      else UnloadDriver_loop (OpenInfoList FileSystemHandle) 0)"

section \<open>efi_main (boot.c lines 239-557)\<close>

subsection \<open>Target search (lines 312-354)\<close>

definition FsMagic :: "UINT8 list list" where
  "FsMagic = [map of_char ''NTFS    '', map of_char ''EXFAT   '']"

definition FsName :: "string list" where
  "FsName = [''NTFS'', ''exFAT'']"

text \<open>
  Lines 341-342: \<open>for (FsType = 0; (FsType < ARRAY_SIZE(FsName)) &&
  (CompareMem(&Buffer[3], FsMagic[FsType], sizeof(FsMagic[FsType])) != 0); FsType++);\<close>
  where \<open>sizeof(FsMagic[FsType])\<close> is 8.
\<close>

function FsType_loop :: "UINT8 list \<Rightarrow> nat \<Rightarrow> nat" where
  "FsType_loop Buffer FsType =
     (if FsType < length FsName \<and> CompareMem (drop 3 Buffer) (FsMagic ! FsType) 8 \<noteq> 0
      then FsType_loop Buffer (FsType + 1)
      else FsType)"
  by pat_completeness auto
termination
  by (relation "measure (\<lambda>(Buffer, FsType). length FsName - FsType)") auto

text \<open>
  The body of the loop over the handles (lines 315-347) for one handle: \<open>Inl FsType\<close> is
  \<open>continue\<close> and \<open>Inr FsType\<close> is \<open>break\<close>, each with the value \<open>FsType\<close> then has.
  \<open>dbg\<close> says whether \<open>_DEBUG\<close> is defined (lines 326-331).
\<close>

definition target_body ::
  "bool \<Rightarrow> EFI_DEVICE_PATH \<Rightarrow> EFI_DEVICE_PATH \<Rightarrow> disk_handle \<Rightarrow> nat \<Rightarrow> nat + nat" where
  "target_body dbg BootPartitionPath BootDiskPath h FsType =
     (if CompareDevicePaths (DevicePath h) BootPartitionPath = 0 then Inl FsType
      else let SameDevice =
                 (CompareDevicePaths BootDiskPath (GetParentDevice (DevicePath h)) = 0) in
        if \<not> dbg \<and> \<not> SameDevice then Inl FsType
        else if EFI_ERROR (BlockIoStatus h) then Inl FsType
        else if \<not> AllocOk h then Inl FsType
        else let FsType' = FsType_loop (ReadBuffer h) 0 in
          if EFI_ERROR (ReadStatus h) then Inl FsType'
          else if FsType' < length FsName then Inr FsType'
          else Inl FsType')"

text \<open>The loop of line 314; the result is the pair \<open>(Index, FsType)\<close> at its exit.\<close>

function target_loop ::
  "bool \<Rightarrow> EFI_DEVICE_PATH \<Rightarrow> EFI_DEVICE_PATH \<Rightarrow> disk_handle list \<Rightarrow> nat \<Rightarrow> nat \<Rightarrow> nat \<times> nat"
  where
  "target_loop dbg BootPartitionPath BootDiskPath Hs Index FsType =
     (if Index < length Hs then
        (case target_body dbg BootPartitionPath BootDiskPath (Hs ! Index) FsType of
           Inr FsType' \<Rightarrow> (Index, FsType')
         | Inl FsType' \<Rightarrow> target_loop dbg BootPartitionPath BootDiskPath Hs (Index + 1) FsType')
      else (Index, FsType))"
  by pat_completeness auto
termination
  by (relation "measure (\<lambda>(dbg, bpp, bdp, Hs, Index, FsType). length Hs - Index)") auto

text \<open>
  The loop followed by the test of lines 350-354: \<open>Inl EFI_NOT_FOUND\<close> is the jump to \<open>out\<close>,
  \<open>Inr (Index, FsType)\<close> the target handle's index and its file-system type.
\<close>

definition locate_target ::
  "bool \<Rightarrow> EFI_DEVICE_PATH \<Rightarrow> EFI_DEVICE_PATH \<Rightarrow> disk_handle list \<Rightarrow> nat \<Rightarrow> nat
     \<Rightarrow> EFI_STATUS + nat \<times> nat" where
  "locate_target dbg BootPartitionPath BootDiskPath Hs Index FsType =
     (case target_loop dbg BootPartitionPath BootDiskPath Hs Index FsType of
        (Index', FsType') \<Rightarrow>
          if Index' \<ge> length Hs then Inl EFI_NOT_FOUND else Inr (Index', FsType'))"

text \<open>Lines 297-298 and 314: the search as \<open>efi_main\<close> starts it.\<close>

definition find_target :: "build_config \<Rightarrow> firmware \<Rightarrow> EFI_STATUS + nat \<times> nat" where
  "find_target cfg fw =
     locate_target (DEBUG cfg) (BootDevicePath fw) (GetParentDevice (BootDevicePath fw))
       (Handles fw) 0 0"

subsection \<open>Starting the next-stage image (lines 512-540)\<close>

text \<open>\<open>BootMgrName\<close> after line 513: the characters of "bootmgr.dll" and the terminating NUL.\<close>

definition BootMgrName :: "UINT8 list" where
  "BootMgrName = map of_char ''bootmgr.dll'' @ [0]"

text \<open>
  The loop of lines 518-525, started with \<open>Index = 0x40\<close>; the result is \<open>WindowsBootMgr\<close>.
  \<open>ImageBase\<close> is the list of the image's bytes and its length is \<open>ImageSize\<close>, a \<open>UINT64\<close>:
  \<open>ImageSize - sizeof(BootMgrName)\<close> wraps around below 0.
\<close>

function WindowsBootMgr_loop :: "UINT8 list \<Rightarrow> nat \<Rightarrow> bool" where
  "WindowsBootMgr_loop ImageBase Index =
     (if Index < (length ImageBase + 2 ^ 64 - length BootMgrName) mod 2 ^ 64 then
        (if CompareMem (drop Index ImageBase) BootMgrName (length BootMgrName) = 0 then True
         else WindowsBootMgr_loop ImageBase (Index + 1))
      else False)"
  by pat_completeness auto
termination
  by (relation "measure (\<lambda>(ImageBase, Index).
        (length ImageBase + 2 ^ 64 - length BootMgrName) mod 2 ^ 64 - Index)") auto

text \<open>Lines 512-525: the value of \<open>WindowsBootMgr\<close> and what is printed.\<close>

definition inspect_loader :: "firmware \<Rightarrow> bool \<times> event list" where
  "inspect_loader fw =
     (if EFI_ERROR (LoaderImageStatus fw)
      then (False, [(517, PrintWarning ''  Unable to inspect loaded executable'')])
      else if WindowsBootMgr_loop (LoaderImage fw) 0x40
      then (True, [(522, PrintInfo ''Starting Microsoft Windows bootmgr...'')])
      else (False, []))"

text \<open>Lines 527-540.\<close>

definition start_loader :: "firmware \<Rightarrow> bool \<Rightarrow> outcome" where
  "start_loader fw WindowsBootMgr =
     emit [(527, StartImage NextStageLoader)]
       (if EFI_ERROR (LoaderStartStatus fw) then
          (if LoaderStartStatus fw = EFI_NO_MAPPING \<and> WindowsBootMgr
           then (LoaderStartStatus fw,
                 [(536, Print ''[FAIL]''),
                  (537, Print
                     ''   Windows bootmgr encountered a security validation or internal error'')])
           else (LoaderStartStatus fw, [(539, PrintError ''  Start failure'')]))
        else (LoaderStartStatus fw, []))"

subsection \<open>Loading the next-stage image (lines 493-510)\<close>

definition load_loader :: "firmware \<Rightarrow> outcome" where
  "load_loader fw =
     emit [(494, PrintInfo (''Launching '%s'...''))]
       (if \<not> LoaderPathOk fw then (EFI_DEVICE_ERROR, [(500, PrintError ''  Could not create path'')])
        else emit [(503, LoadImage NextStageLoader)]
          (if EFI_ERROR (LoaderLoadStatus fw) then
             ((if LoaderLoadStatus fw = EFI_ACCESS_DENIED \<and> SecureBootStatus fw \<ge> 1
               then EFI_SECURITY_VIOLATION else LoaderLoadStatus fw),
              [(508, PrintError ''  Load failure'')])
           else emit (snd (inspect_loader fw)) (start_loader fw (fst (inspect_loader fw)))))"

subsection \<open>Root directory, volume label and loader path (lines 461-491)\<close>

text \<open>Lines 469-483 only print; the status they leave is overwritten at line 487.\<close>

definition volume_label :: "build_config \<Rightarrow> firmware \<Rightarrow> event list" where
  "volume_label cfg fw =
     (if VolumeInfoAllocOk fw then
        (let Status = GetInfoStatus fw;
             Status = (if Status = EFI_BUFFER_TOO_SMALL \<and> GetInfoSize fw \<le> FILE_INFO_SIZE cfg
                       then GetInfoRetryStatus fw else Status)
         in if Status = EFI_SUCCESS
            then [(479, PrintInfo (''  Volume label is '%s'' @ [CHR 0x27]))]
            else [(481, PrintWarning ''  Could not read volume label: [%d] %r'')])
      else [])"

definition open_root :: "build_config \<Rightarrow> firmware \<Rightarrow> outcome" where
  "open_root cfg fw =
     (if EFI_ERROR (OpenRootStatus fw) \<or> RootIsNull fw
      then (OpenRootStatus fw, [(465, PrintError ''  Could not open Root directory'')])
      else emit (volume_label cfg fw)
        (emit [(485, PrintInfo
                 ''This system uses %s UEFI => searching for %s EFI bootloader'')]
           (if EFI_ERROR (SetPathCaseStatus fw)
            then (SetPathCaseStatus fw,
                  [(489, PrintError (''  Could not locate '%s'' @ [CHR 0x27]))])
            else load_loader fw)))"

subsection \<open>Opening the volume, with retry (lines 442-459)\<close>

text \<open>
  The argument of \<open>Stall\<close> at line 458, \<open>DELAY * 1000000\<close>. The product is computed in C
  \<open>int\<close> (32 bits, two's complement), where it wraps around, and the result is converted to
  the \<open>UINTN\<close> parameter of \<open>Stall\<close> (64 bits), a negative one by adding \<open>2 ^ 64\<close>.
\<close>

definition int32 :: "int \<Rightarrow> int" where
  "int32 x = (x + 2 ^ 31) mod 2 ^ 32 - 2 ^ 31"

definition Stall_argument :: "int \<Rightarrow> nat" where
  "Stall_argument Delay = nat (int32 (Delay * 1000000) mod 2 ^ 64)"

text \<open>
  The loop of line 449 from the value \<open>Try\<close> of its counter: \<open>Inr Status\<close> is the \<open>break\<close> of
  line 453 and \<open>Inl Status\<close> the jump to \<open>out\<close> of line 456, with the events of the loop.
\<close>

function open_volume_loop ::
  "build_config \<Rightarrow> firmware \<Rightarrow> nat \<Rightarrow> nat \<Rightarrow> (EFI_STATUS + EFI_STATUS) \<times> event list" where
  "open_volume_loop cfg fw Index Try =
     (if \<not> EFI_ERROR (OpenVolumeStatus fw Try)
      then (Inr (OpenVolumeStatus fw Try), [(450, OpenVolume Index)])
      else if Try \<ge> NUM_RETRIES cfg
      then (Inl (OpenVolumeStatus fw Try),
            [(450, OpenVolume Index), (454, PrintError ''  Could not open partition'')])
      else (fst (open_volume_loop cfg fw Index (Try + 1)),
            [(450, OpenVolume Index), (454, PrintError ''  Could not open partition''),
             (457, PrintWarning ''  Waiting %d seconds before retrying...''),
             (458, Stall (Stall_argument (DELAY cfg)))]
            @ snd (open_volume_loop cfg fw Index (Try + 1))))"
  by pat_completeness auto
termination
  by (relation "measure (\<lambda>(cfg, fw, Index, Try). NUM_RETRIES cfg - Try)") auto

definition open_volume :: "build_config \<Rightarrow> firmware \<Rightarrow> nat \<Rightarrow> outcome" where
  "open_volume cfg fw Index =
     emit [(446, PrintInfo ''Opening target %s partition:'')]
       (case fst (open_volume_loop cfg fw Index 0) of
          Inl Status \<Rightarrow> (Status, snd (open_volume_loop cfg fw Index 0))
        | Inr Status \<Rightarrow> emit (snd (open_volume_loop cfg fw Index 0)) (open_root cfg fw))"

subsection \<open>The companion driver (lines 360-440)\<close>

text \<open>Lines 383-440, entered when \<open>Status == EFI_UNSUPPORTED\<close> at line 382.\<close>

definition start_driver :: "build_config \<Rightarrow> firmware \<Rightarrow> nat \<Rightarrow> nat \<Rightarrow> outcome" where
  "start_driver cfg fw Index FsType =
     emit [(383, PrintInfo ''Starting %s driver service:'')]
       (if \<not> DriverPathOk fw
        then (EFI_DEVICE_ERROR, [(390, PrintError (''  Unable to set path for '%s'' @ [CHR 0x27]))])
        else emit [(397, LoadImage (CompanionDriver FsType))]
          (if EFI_ERROR (DriverLoadStatus fw) then
             ((if DriverLoadStatus fw = EFI_ACCESS_DENIED \<and> SecureBootStatus fw \<ge> 1
               then EFI_SECURITY_VIOLATION else DriverLoadStatus fw),
              [(404, PrintError (''  Unable to load driver '%s'' @ [CHR 0x27]))])
           else if EFI_ERROR (DriverImageStatus fw)
           then (DriverImageStatus fw, [(414, PrintError ''  Unable to access driver interface'')])
           else if DriverImageCodeType fw \<noteq> EfiBootServicesCode
           then (EFI_LOAD_ERROR, [(419, PrintError ''  '%s' is not a Boot System Driver'')])
           else emit [(424, StartImage (CompanionDriver FsType))]
             (if EFI_ERROR (DriverStartStatus fw)
              then (DriverStartStatus fw, [(426, PrintError ''  Unable to start driver'')])
              else emit [(429, PrintInfo ''  %s''), (435, ConnectController Index)]
                (if EFI_ERROR (ConnectStatus fw)
                 then (ConnectStatus fw,
                       [(437, PrintError ''  Could not start %s partition service'')])
                 else open_volume cfg fw Index))))"

text \<open>
  Lines 360-382: the file-system test on the target handle, the unload of a driver that
  services it, and the choice between starting the companion driver and going on.
\<close>

definition driver_service :: "build_config \<Rightarrow> firmware \<Rightarrow> nat \<Rightarrow> nat \<Rightarrow> outcome" where
  "driver_service cfg fw Index FsType =
     (if FsTestStatus (Handles fw ! Index) \<noteq> EFI_SUCCESS
         \<and> FsTestStatus (Handles fw ! Index) \<noteq> EFI_UNSUPPORTED
      then (FsTestStatus (Handles fw ! Index),
            [(367, PrintError ''Could not check for %s service'')])
      else if FsTestStatus (Handles fw ! Index) = EFI_SUCCESS
      then emit (snd (UnloadDriver (Handles fw ! Index)))
             (if fst (UnloadDriver (Handles fw ! Index)) = EFI_SUCCESS
              then start_driver cfg fw Index FsType
              else open_volume cfg fw Index)
      else start_driver cfg fw Index FsType)"

subsection \<open>The entry point\<close>

text \<open>Lines 312-358.\<close>

definition select_target :: "build_config \<Rightarrow> firmware \<Rightarrow> outcome" where
  "select_target cfg fw =
     (case find_target cfg fw of
        Inl Status \<Rightarrow> (Status, [(352, PrintError ''  Could not locate target partition'')])
      | Inr (Index, FsType) \<Rightarrow>
          emit [(355, PrintInfo ''Found %s target partition:''), (357, PrintInfo ''  %s'')]
            (driver_service cfg fw Index FsType))"

text \<open>
  Lines 286-310. \<open>DisconnectBlockingDrivers\<close> (line 294) returns nothing and leaves \<open>Status\<close>
  alone; the firmware's answers recorded in \<open>fw\<close> are those given after it has run, and what it
  prints is not recorded.
\<close>

definition boot_context :: "build_config \<Rightarrow> firmware \<Rightarrow> outcome" where
  "boot_context cfg fw =
     (if EFI_ERROR (LoadedImageStatus fw)
      then (LoadedImageStatus fw, [(289, PrintError ''Unable to access boot image interface'')])
      else emit [(293, PrintInfo ''Disconnecting potentially blocking drivers''),
                 (300, PrintInfo ''Searching for target partition on boot disk:''),
                 (302, PrintInfo ''  %s'')]
        (if EFI_ERROR (LocateStatus fw)
         then (LocateStatus fw, [(308, PrintError ''  Failed to list disks'')])
         else select_target cfg fw))"

text \<open>
  Lines 273-284: the report of the secure boot status. Of line 282 the printed state name,
  the argument of its format, is recorded.
\<close>

definition secure_boot_report :: "int \<Rightarrow> event list" where
  "secure_boot_report Status =
     [(275, Print ''[INFO]''), (277, Print '' Secure Boot status: '')] @
     (if Status = 0 then [(279, Print ''Disabled'')]
      else [(282, Print (if Status > 0 then ''Enabled'' else ''Setup''))])"

text \<open>The label \<open>out\<close> (lines 542-556): the wait for a key on error, and the return.\<close>

definition out :: "outcome \<Rightarrow> outcome" where
  "out r =
     (if EFI_ERROR (fst r) then (fst r, snd r @ [(550, Print ''Press any key to exit.'')])
      else r)"

text \<open>
  \<open>efi_main\<close>: the status returned to the firmware and the trace of the run. The banner and
  the system information (lines 271-272) are not recorded.
\<close>

definition efi_main :: "build_config \<Rightarrow> firmware \<Rightarrow> outcome" where
  "efi_main cfg fw = out (emit (secure_boot_report (SecureBootStatus fw)) (boot_context cfg fw))"

section \<open>The vocabulary of the specification\<close>

text \<open>
  The classification of a first block as the specification words it: the 8-byte window at
  byte offset 3, equal to "NTFS    " or to "EXFAT   ", or anything else.
\<close>

datatype fs_class = NTFS | exFAT | Unknown

definition window :: "UINT8 list \<Rightarrow> UINT8 list" where
  "window Block = take 8 (drop 3 Block)"

definition classify_window :: "UINT8 list \<Rightarrow> fs_class" where
  "classify_window w =
     (if w = map of_char ''NTFS    '' then NTFS
      else if w = map of_char ''EXFAT   '' then exFAT
      else Unknown)"

text \<open>The value of \<open>FsType\<close> that stands for a class: an index of \<open>FsName\<close>, or its size.\<close>

fun fs_index :: "fs_class \<Rightarrow> nat" where
  "fs_index NTFS = 0"
| "fs_index exFAT = 1"
| "fs_index Unknown = 2"

text \<open>
  The class of an enumerated handle: \<open>Unknown\<close> when its first block could not be read (the
  block interface did not open, the buffer was not allocated, or the read failed), the class
  of the block's window otherwise.
\<close>

definition classification :: "disk_handle \<Rightarrow> fs_class" where
  "classification h =
     (if EFI_ERROR (BlockIoStatus h) \<or> \<not> AllocOk h \<or> EFI_ERROR (ReadStatus h) then Unknown
      else classify_window (window (ReadBuffer h)))"

text \<open>
  A candidate: not the boot partition and, unless \<open>_DEBUG\<close> is defined, on the boot disk,
  that is, with the parent path of the boot partition.
\<close>

definition candidate :: "bool \<Rightarrow> EFI_DEVICE_PATH \<Rightarrow> disk_handle \<Rightarrow> bool" where
  "candidate dbg BootPartitionPath h =
     (DevicePath h \<noteq> BootPartitionPath
      \<and> (dbg \<or> GetParentDevice (DevicePath h) = GetParentDevice BootPartitionPath))"

definition recognized :: "bool \<Rightarrow> EFI_DEVICE_PATH \<Rightarrow> disk_handle \<Rightarrow> bool" where
  "recognized dbg BootPartitionPath h =
     (candidate dbg BootPartitionPath h \<and> classification h \<noteq> Unknown)"

text \<open>The secure boot state that lines 278-284 report for a value of \<open>SecureBootStatus\<close>.\<close>

datatype secure_boot_state = Disabled | Enabled | Setup

definition SecureBootState :: "int \<Rightarrow> secure_boot_state" where
  "SecureBootState Status = (if Status = 0 then Disabled else if Status > 0 then Enabled else Setup)"



text \<open>The actions a trace records for a set of lines of boot.c, in order.\<close>

definition at_lines :: "nat set \<Rightarrow> event list \<Rightarrow> action list" where
  "at_lines L tr = map snd (filter (\<lambda>e. fst e \<in> L) tr)"

text \<open>
  The schedule of the retry loop the specification describes: \<open>k + 1\<close> open attempts on the
  handle \<open>Index\<close>, with a stall of \<open>d\<close> microseconds between consecutive attempts.
\<close>

fun schedule :: "nat \<Rightarrow> nat \<Rightarrow> nat \<Rightarrow> action list" where
  "schedule Index d 0 = [OpenVolume Index]"
| "schedule Index d (Suc k) = OpenVolume Index # Stall d # schedule Index d k"

text \<open>
  A stage \<open>S\<close> of a run passes into the stage \<open>N\<close> below the line \<open>L\<close>: \<open>S\<close> is \<open>N\<close> after
  events of lines before \<open>L\<close>.
\<close>

definition passes :: "nat \<Rightarrow> outcome \<Rightarrow> outcome \<Rightarrow> bool" where
  "passes L S N = (\<exists>pre. S = emit pre N \<and> (\<forall>e \<in> set pre. fst e < L))"

section \<open>Example runs\<close>

text \<open>
  A build with the retry policy of one retry after three seconds, and a USB disk with two
  partitions: the boot partition (FAT) and an NTFS partition that no driver services.
  Secure boot is enabled, every other firmware call succeeds, and the next-stage image holds
  "bootmgr.dll" and its NUL at offset 0x40.
\<close>

definition example_build :: build_config where
  "example_build = \<lparr>DEBUG = False, NUM_RETRIES = 1, DELAY = 3, FILE_INFO_SIZE = 1024\<rparr>"

definition usb_disk :: EFI_DEVICE_PATH where
  "usb_disk = [(3, 5, [0, 0])]"

definition other_disk :: EFI_DEVICE_PATH where
  "other_disk = [(3, 5, [1, 0])]"

definition partition :: "UINT8 \<Rightarrow> device_path_node" where
  "partition n = (4, 1, [n])"

definition fat_block :: "UINT8 list" where
  "fat_block = [0xEB, 0x58, 0x90] @ map of_char ''MSDOS5.0'' @ replicate 501 0"

definition ntfs_block :: "UINT8 list" where
  "ntfs_block = [0xEB, 0x52, 0x90] @ map of_char ''NTFS    '' @ replicate 501 0"

definition exfat_block :: "UINT8 list" where
  "exfat_block = [0xEB, 0x76, 0x90] @ map of_char ''EXFAT   '' @ replicate 501 0"

definition boot_partition :: disk_handle where
  "boot_partition =
     \<lparr>DevicePath = usb_disk @ [partition 1], BlockIoStatus = EFI_SUCCESS, AllocOk = True,
      ReadStatus = EFI_SUCCESS, ReadBuffer = fat_block, FsTestStatus = EFI_SUCCESS,
      OpenInfoStatus = EFI_SUCCESS, OpenInfoList = []\<rparr>"

definition ntfs_partition :: disk_handle where
  "ntfs_partition =
     \<lparr>DevicePath = usb_disk @ [partition 2], BlockIoStatus = EFI_SUCCESS, AllocOk = True,
      ReadStatus = EFI_SUCCESS, ReadBuffer = ntfs_block, FsTestStatus = EFI_UNSUPPORTED,
      OpenInfoStatus = EFI_SUCCESS, OpenInfoList = []\<rparr>"

definition bootmgr_image :: "UINT8 list" where
  "bootmgr_image = replicate 0x40 0 @ BootMgrName @ replicate 4 0"

definition good_firmware :: firmware where
  "good_firmware =
     \<lparr>SecureBootStatus = 1, LoadedImageStatus = EFI_SUCCESS,
      BootDevicePath = usb_disk @ [partition 1], LocateStatus = EFI_SUCCESS,
      Handles = [boot_partition, ntfs_partition],
      DriverPathOk = True, DriverLoadStatus = EFI_SUCCESS, DriverImageStatus = EFI_SUCCESS,
      DriverImageCodeType = EfiBootServicesCode, DriverStartStatus = EFI_SUCCESS,
      ConnectStatus = EFI_SUCCESS, OpenVolumeStatus = (\<lambda>Try. EFI_SUCCESS),
      OpenRootStatus = EFI_SUCCESS, RootIsNull = False, VolumeInfoAllocOk = True,
      GetInfoStatus = EFI_SUCCESS, GetInfoSize = 0, GetInfoRetryStatus = EFI_SUCCESS,
      SetPathCaseStatus = EFI_SUCCESS, LoaderPathOk = True, LoaderLoadStatus = EFI_SUCCESS,
      LoaderImageStatus = EFI_SUCCESS, LoaderImage = bootmgr_image,
      LoaderStartStatus = EFI_SUCCESS\<rparr>"

text \<open>Variations of the example, named by what differs.\<close>

definition fat_partition :: disk_handle where
  "fat_partition = boot_partition\<lparr>DevicePath := usb_disk @ [partition 2]\<rparr>"

definition no_target_firmware :: firmware where
  "no_target_firmware = good_firmware\<lparr>Handles := [boot_partition, fat_partition]\<rparr>"

definition unreadable_partition :: disk_handle where
  "unreadable_partition =
     ntfs_partition\<lparr>DevicePath := usb_disk @ [partition 2], ReadStatus := EFI_DEVICE_ERROR\<rparr>"

definition exfat_partition :: disk_handle where
  "exfat_partition =
     ntfs_partition\<lparr>DevicePath := usb_disk @ [partition 3], ReadBuffer := exfat_block\<rparr>"

definition boot_partition_copy :: disk_handle where
  "boot_partition_copy = ntfs_partition\<lparr>DevicePath := usb_disk @ [partition 1]\<rparr>"

definition other_disk_partition :: disk_handle where
  "other_disk_partition = ntfs_partition\<lparr>DevicePath := other_disk @ [partition 1]\<rparr>"

definition unreadable_firmware :: firmware where
  "unreadable_firmware =
     good_firmware\<lparr>Handles := [boot_partition, unreadable_partition, exfat_partition]\<rparr>"

definition boot_copy_firmware :: firmware where
  "boot_copy_firmware = good_firmware\<lparr>Handles := [boot_partition_copy, ntfs_partition]\<rparr>"

definition two_disk_firmware :: firmware where
  "two_disk_firmware =
     good_firmware\<lparr>Handles := [boot_partition, other_disk_partition, ntfs_partition]\<rparr>"

definition debug_build :: build_config where
  "debug_build = example_build\<lparr>DEBUG := True\<rparr>"

definition long_delay_build :: build_config where
  "long_delay_build = example_build\<lparr>DELAY := 3000\<rparr>"

definition driver_denied_firmware :: firmware where
  "driver_denied_firmware = good_firmware\<lparr>DriverLoadStatus := EFI_ACCESS_DENIED\<rparr>"

definition loader_denied_firmware :: firmware where
  "loader_denied_firmware = good_firmware\<lparr>LoaderLoadStatus := EFI_ACCESS_DENIED\<rparr>"

definition setup_denied_firmware :: firmware where
  "setup_denied_firmware =
     good_firmware\<lparr>SecureBootStatus := - 1, DriverLoadStatus := EFI_ACCESS_DENIED\<rparr>"

text \<open>
  Openers of a partition's disk I/O: one without a driver binding, one whose image refuses
  to unload, one whose image unloads, and one more after it.
\<close>

definition phantom_opener :: open_info_entry where
  "phantom_opener =
     \<lparr>AgentHandle = 10, BindingStatus = EFI_UNSUPPORTED, Version = 0, ImageHandle = 0,
      UnloadStatus = EFI_SUCCESS\<rparr>"

definition stubborn_opener :: open_info_entry where
  "stubborn_opener =
     \<lparr>AgentHandle = 11, BindingStatus = EFI_SUCCESS, Version = 0x10, ImageHandle = 21,
      UnloadStatus = EFI_ACCESS_DENIED\<rparr>"

definition native_opener :: open_info_entry where
  "native_opener =
     \<lparr>AgentHandle = 12, BindingStatus = EFI_SUCCESS, Version = 0x10, ImageHandle = 22,
      UnloadStatus = EFI_SUCCESS\<rparr>"

definition spare_opener :: open_info_entry where
  "spare_opener =
     \<lparr>AgentHandle = 13, BindingStatus = EFI_SUCCESS, Version = 0x10, ImageHandle = 23,
      UnloadStatus = EFI_SUCCESS\<rparr>"

definition serviced_partition :: disk_handle where
  "serviced_partition =
     ntfs_partition\<lparr>FsTestStatus := EFI_SUCCESS,
       OpenInfoList := [phantom_opener, stubborn_opener, native_opener, spare_opener]\<rparr>"

definition stuck_partition :: disk_handle where
  "stuck_partition =
     ntfs_partition\<lparr>FsTestStatus := EFI_SUCCESS,
       OpenInfoList := [phantom_opener, stubborn_opener]\<rparr>"

definition serviced_firmware :: firmware where
  "serviced_firmware = good_firmware\<lparr>Handles := [boot_partition, serviced_partition]\<rparr>"

definition stuck_firmware :: firmware where
  "stuck_firmware = good_firmware\<lparr>Handles := [boot_partition, stuck_partition]\<rparr>"

text \<open>A volume that opens at the second attempt, and one that never opens.\<close>

fun fails_once :: "nat \<Rightarrow> EFI_STATUS" where
  "fails_once 0 = EFI_UNSUPPORTED"
| "fails_once (Suc Try) = EFI_SUCCESS"

definition slow_firmware :: firmware where
  "slow_firmware = good_firmware\<lparr>OpenVolumeStatus := fails_once\<rparr>"

definition never_ready_firmware :: firmware where
  "never_ready_firmware = good_firmware\<lparr>OpenVolumeStatus := (\<lambda>Try. EFI_UNSUPPORTED)\<rparr>"

definition no_mapping_firmware :: firmware where
  "no_mapping_firmware = good_firmware\<lparr>LoaderStartStatus := EFI_NO_MAPPING\<rparr>"

definition unterminated_image :: "UINT8 list" where
  "unterminated_image = replicate 0x40 0 @ map of_char ''bootmgr.dllX'' @ replicate 4 0"

definition unterminated_firmware :: firmware where
  "unterminated_firmware = no_mapping_firmware\<lparr>LoaderImage := unterminated_image\<rparr>"

definition plain_firmware :: firmware where
  "plain_firmware = no_mapping_firmware\<lparr>LoaderImage := replicate 80 0\<rparr>"

definition uninspectable_firmware :: firmware where
  "uninspectable_firmware = no_mapping_firmware\<lparr>LoaderImageStatus := EFI_UNSUPPORTED\<rparr>"

definition tail_image :: "UINT8 list" where
  "tail_image = replicate 0x40 0 @ BootMgrName"

section \<open>Properties of the stages\<close>

declare open_volume_loop.simps [simp del] UnloadDriver_loop.simps [simp del]
  target_loop.simps [simp del] FsType_loop.simps [simp del] WindowsBootMgr_loop.simps [simp del]

text \<open>The definitions that a run on a concrete firmware unfolds.\<close>

lemmas run_defs = efi_main_def out_def emit_def secure_boot_report_def boot_context_def
  select_target_def find_target_def locate_target_def target_loop.simps target_body_def
  FsType_loop.simps FsMagic_def FsName_def CompareMem_def CompareDevicePaths_def
  GetParentDevice_def driver_service_def UnloadDriver_def UnloadDriver_loop.simps
  start_driver_def open_volume_def open_volume_loop.simps open_root_def volume_label_def
  load_loader_def inspect_loader_def WindowsBootMgr_loop.simps BootMgrName_def
  start_loader_def EFI_ERROR_def Stall_argument_def int32_def

lemmas example_defs = example_build_def good_firmware_def boot_partition_def
  ntfs_partition_def usb_disk_def other_disk_def partition_def fat_block_def ntfs_block_def
  exfat_block_def bootmgr_image_def fat_partition_def no_target_firmware_def
  unreadable_partition_def exfat_partition_def boot_partition_copy_def
  other_disk_partition_def unreadable_firmware_def boot_copy_firmware_def
  two_disk_firmware_def debug_build_def long_delay_build_def driver_denied_firmware_def
  loader_denied_firmware_def setup_denied_firmware_def phantom_opener_def
  stubborn_opener_def native_opener_def spare_opener_def serviced_partition_def
  stuck_partition_def serviced_firmware_def stuck_firmware_def slow_firmware_def
  never_ready_firmware_def no_mapping_firmware_def unterminated_image_def
  unterminated_firmware_def plain_firmware_def uninspectable_firmware_def tail_image_def

lemmas spec_defs = recognized_def candidate_def classification_def classify_window_def
  window_def SecureBootState_def at_lines_def

subsection \<open>The target search\<close>

lemma FsMagic_nth: "FsMagic ! 0 = map of_char ''NTFS    ''" "FsMagic ! Suc 0 = map of_char ''EXFAT   ''"
  by (simp_all add: FsMagic_def)

lemma CompareMem_8: "length m = 8 \<Longrightarrow> (CompareMem (drop 3 b) m 8 = 0) = (window b = m)"
  by (simp add: CompareMem_def window_def)

lemma FsType_loop_window: "FsType_loop b 0 = fs_index (classify_window (window b))"
proof -
  have two: "FsType_loop b (Suc (Suc 0)) = 2"
    by (subst FsType_loop.simps) (simp add: FsName_def)
  have one: "FsType_loop b (Suc 0) = (if window b = map of_char ''EXFAT   '' then 1 else 2)"
    using two by (subst FsType_loop.simps) (simp add: FsName_def FsMagic_def CompareMem_8 del: FsType_loop.simps)
  show ?thesis
    using one
    by (subst FsType_loop.simps) (simp add: FsName_def FsMagic_def CompareMem_8 classify_window_def del: FsType_loop.simps)
qed





lemma target_body_Inr_FsType:
  "target_body dbg bpp bdp h ft = Inr x \<Longrightarrow> target_body dbg bpp bdp h ft' = Inr x"
  by (auto simp: target_body_def Let_def split: if_splits)

lemma target_body_Inl_FsType:
  "target_body dbg bpp bdp h ft = Inl y \<Longrightarrow> \<exists>y'. target_body dbg bpp bdp h ft' = Inl y'"
  by (auto simp: target_body_def Let_def split: if_splits)

lemma locate_target_FsType:
  "locate_target dbg bpp bdp Hs Index ft = locate_target dbg bpp bdp Hs Index ft'"
proof (induction "length Hs - Index" arbitrary: Index ft ft')
  case 0
  then show ?case
    by (simp add: locate_target_def target_loop.simps [of _ _ _ Hs Index])
next
  case (Suc n)
  then have lt: "Index < length Hs" by simp
  show ?case
  proof (cases "target_body dbg bpp bdp (Hs ! Index) ft")
    case (Inr x)
    from target_body_Inr_FsType [OF Inr, of ft'] Inr lt show ?thesis
      by (simp add: locate_target_def target_loop.simps [of _ _ _ Hs Index])
  next
    case (Inl y)
    from target_body_Inl_FsType [OF Inl, of ft'] obtain y' where
      y': "target_body dbg bpp bdp (Hs ! Index) ft' = Inl y'" by blast
    have "locate_target dbg bpp bdp Hs (Index + 1) y = locate_target dbg bpp bdp Hs (Index + 1) y'"
      using Suc.hyps(2) lt by (intro Suc.hyps(1)) simp
    with Inl y' lt show ?thesis
      by (simp add: locate_target_def target_loop.simps [of _ _ _ Hs Index])
  qed
qed

lemma locate_target_continue:
  assumes "Index < length Hs" "target_body dbg bpp bdp (Hs ! Index) ft = Inl y"
  shows "locate_target dbg bpp bdp Hs Index ft = locate_target dbg bpp bdp Hs (Index + 1) ft"
proof -
  from assms have "locate_target dbg bpp bdp Hs Index ft = locate_target dbg bpp bdp Hs (Index + 1) y"
    by (simp add: locate_target_def target_loop.simps [of _ _ _ Hs Index])
  then show ?thesis using locate_target_FsType by simp
qed

lemma target_loop_break:
  "target_loop dbg bpp bdp Hs Index ft = (i, ft') \<Longrightarrow> i < length Hs \<Longrightarrow>
   \<exists>f0. target_body dbg bpp bdp (Hs ! i) f0 = Inr ft'"
proof (induction dbg bpp bdp Hs Index ft rule: target_loop.induct)
  case (1 dbg bpp bdp Hs Index ft)
  show ?case
  proof (cases "Index < length Hs")
    case False
    with "1.prems" show ?thesis by (simp add: target_loop.simps [of _ _ _ Hs Index])
  next
    case True
    show ?thesis
    proof (cases "target_body dbg bpp bdp (Hs ! Index) ft")
      case (Inr x)
      with True "1.prems" show ?thesis
        by (auto simp: target_loop.simps [of _ _ _ Hs Index])
    next
      case (Inl y)
      with True "1.prems" have "target_loop dbg bpp bdp Hs (Index + 1) y = (i, ft')"
        by (simp add: target_loop.simps [of _ _ _ Hs Index])
      from "1.IH" [OF True Inl this "1.prems"(2)] show ?thesis .
    qed
  qed
qed

lemma locate_target_Inr:
  assumes "locate_target dbg bpp bdp Hs Index ft = Inr (i, ft')"
  shows "i < length Hs \<and> (\<exists>f0. target_body dbg bpp bdp (Hs ! i) f0 = Inr ft')"
proof -
  from assms have l: "target_loop dbg bpp bdp Hs Index ft = (i, ft')" and i: "i < length Hs"
    by (auto simp: locate_target_def split: prod.splits if_splits)
  from target_loop_break [OF l i] i show ?thesis by blast
qed

lemma target_body_Inr_compare:
  "target_body dbg bpp bdp h f0 = Inr ft \<Longrightarrow>
   CompareDevicePaths (DevicePath h) bpp \<noteq> 0
   \<and> (\<not> dbg \<longrightarrow> CompareDevicePaths bdp (GetParentDevice (DevicePath h)) = 0)"
  by (auto simp: target_body_def Let_def split: if_splits)

lemma target_body_debug: "target_body True bpp bdp h ft = target_body True bpp bdp' h ft"
  by (simp add: target_body_def Let_def)

lemma target_loop_debug:
  "target_loop True bpp bdp Hs Index ft = target_loop True bpp bdp' Hs Index ft"
proof (induction "length Hs - Index" arbitrary: Index ft)
  case 0
  then show ?case by (simp add: target_loop.simps [of _ _ _ Hs Index])
next
  case (Suc n)
  then have lt: "Index < length Hs" by simp
  have b: "target_body True bpp bdp (Hs ! Index) ft = target_body True bpp bdp' (Hs ! Index) ft"
    by (rule target_body_debug)
  have "\<And>y. target_loop True bpp bdp Hs (Index + 1) y = target_loop True bpp bdp' Hs (Index + 1) y"
    using Suc.hyps(2) lt by (intro Suc.hyps(1)) simp
  with b lt show ?case
    by (simp add: target_loop.simps [of _ _ _ Hs Index] split: sum.splits)
qed

subsection \<open>Traces and stages\<close>

lemma EFI_ERROR_simps [simp]:
  "\<not> EFI_ERROR EFI_SUCCESS" "EFI_ERROR EFI_NOT_FOUND" "EFI_ERROR EFI_DEVICE_ERROR"
  "EFI_ERROR EFI_LOAD_ERROR" "EFI_ERROR EFI_SECURITY_VIOLATION" "EFI_ERROR EFI_ACCESS_DENIED"
  "EFI_ERROR EFI_UNSUPPORTED" "EFI_ERROR EFI_NO_MAPPING" "EFI_ERROR EFI_NOT_READY"
  by (simp_all add: EFI_ERROR_def)

lemma fst_emit [simp]: "fst (emit evs r) = fst r" by (simp add: emit_def)
lemma snd_emit [simp]: "snd (emit evs r) = evs @ snd r" by (simp add: emit_def)
lemma emit_emit: "emit a (emit b r) = emit (a @ b) r" by (simp add: emit_def)
lemma emit_Nil [simp]: "emit [] r = r" by (simp add: emit_def)

lemma passes_refl: "passes L S S"
  unfolding passes_def by (rule exI [of _ "[]"]) simp

lemma passes_emit: "\<forall>e \<in> set evs. fst e < L \<Longrightarrow> passes L (emit evs N) N"
  unfolding passes_def by blast

lemma passes_trans: "passes L S N \<Longrightarrow> passes L' N M \<Longrightarrow> L \<le> L' \<Longrightarrow> passes L' S M"
  unfolding passes_def
  by (metis Un_iff emit_emit order_less_le_trans set_append)

lemma passes_emit_left: "\<forall>e \<in> set evs. fst e < L \<Longrightarrow> passes L S N \<Longrightarrow> passes L (emit evs S) N"
  using passes_trans [OF passes_emit] by blast 

lemma passes_mem: "passes L S N \<Longrightarrow> e \<in> set (snd S) \<Longrightarrow> L \<le> fst e \<Longrightarrow> e \<in> set (snd N)"
  unfolding passes_def by (fastforce simp: emit_def)

lemma passes_fst: "passes L S N \<Longrightarrow> fst S = fst N"
  unfolding passes_def by auto


lemma start_loader_lines: "e \<in> set (snd (start_loader fw w)) \<Longrightarrow> 527 \<le> fst e \<and> fst e < 550"
  by (auto simp: start_loader_def split: if_splits)

lemma inspect_loader_lines: "e \<in> set (snd (inspect_loader fw)) \<Longrightarrow> 494 \<le> fst e \<and> fst e < 527"
  by (auto simp: inspect_loader_def split: if_splits)

lemma load_loader_lines: "e \<in> set (snd (load_loader fw)) \<Longrightarrow> 494 \<le> fst e \<and> fst e < 550"
  by (auto simp: load_loader_def split: if_splits dest: inspect_loader_lines start_loader_lines)

lemma volume_label_lines: "e \<in> set (volume_label cfg fw) \<Longrightarrow> 465 \<le> fst e \<and> fst e < 494"
  by (auto simp: volume_label_def Let_def split: if_splits)

lemma open_root_lines: "e \<in> set (snd (open_root cfg fw)) \<Longrightarrow> 465 \<le> fst e \<and> fst e < 550"
  by (auto simp: open_root_def split: if_splits dest: volume_label_lines load_loader_lines)




lemma open_volume_loop_lines:
  "e \<in> set (snd (open_volume_loop cfg fw Index Try)) \<Longrightarrow> 450 \<le> fst e \<and> fst e \<le> 458"
proof (induction cfg fw Index Try rule: open_volume_loop.induct)
  case (1 cfg fw Index Try)
  from "1.prems" "1.IH" show ?case
    unfolding open_volume_loop.simps [of cfg fw Index Try]
    by (auto split: if_splits)
qed

lemma open_volume_lines: "e \<in> set (snd (open_volume cfg fw Index)) \<Longrightarrow> 446 \<le> fst e \<and> fst e < 550"
  by (auto simp: open_volume_def split: sum.splits
      dest!: open_volume_loop_lines open_root_lines)

lemma start_driver_lines: "e \<in> set (snd (start_driver cfg fw Index FsType)) \<Longrightarrow> 383 \<le> fst e \<and> fst e < 550"
  by (auto simp: start_driver_def split: if_splits dest!: open_volume_lines)

lemma UnloadDriver_loop_lines:
  "e \<in> set (snd (UnloadDriver_loop es i)) \<Longrightarrow> 177 \<le> fst e \<and> fst e \<le> 180"
proof (induction es i rule: UnloadDriver_loop.induct)
  case (1 es i)
  from "1.prems" "1.IH" show ?case
    unfolding UnloadDriver_loop.simps [of es i]
    by (auto split: if_splits)
qed

lemma UnloadDriver_lines: "e \<in> set (snd (UnloadDriver h)) \<Longrightarrow> 177 \<le> fst e \<and> fst e \<le> 180"
  by (auto simp: UnloadDriver_def split: if_splits dest!: UnloadDriver_loop_lines)


lemma load_loader_passes:
  "e \<in> set (snd (load_loader fw)) \<Longrightarrow> 527 \<le> fst e \<Longrightarrow>
   passes 527 (load_loader fw) (start_loader fw (fst (inspect_loader fw)))"
  unfolding load_loader_def
  by (auto split: if_splits dest: inspect_loader_lines
      intro!: passes_emit_left passes_refl)

lemma open_root_passes:
  "e \<in> set (snd (open_root cfg fw)) \<Longrightarrow> 494 \<le> fst e \<Longrightarrow>
   passes 494 (open_root cfg fw) (load_loader fw)"
  unfolding open_root_def
  by (auto split: if_splits dest: volume_label_lines
      intro!: passes_emit_left passes_refl)

lemma open_volume_passes:
  "e \<in> set (snd (open_volume cfg fw Index)) \<Longrightarrow> 465 \<le> fst e \<Longrightarrow>
   passes 465 (open_volume cfg fw Index) (open_root cfg fw)"
  unfolding open_volume_def
  by (auto split: sum.splits dest: open_volume_loop_lines
      intro!: passes_emit_left passes_refl)

lemma start_driver_passes:
  "e \<in> set (snd (start_driver cfg fw Index FsType)) \<Longrightarrow> 446 \<le> fst e \<Longrightarrow>
   passes 446 (start_driver cfg fw Index FsType) (open_volume cfg fw Index)"
  unfolding start_driver_def
  by (auto split: if_splits intro!: passes_emit_left passes_refl)

lemma driver_service_passes_volume:
  "e \<in> set (snd (driver_service cfg fw Index FsType)) \<Longrightarrow> 446 \<le> fst e \<Longrightarrow>
   passes 446 (driver_service cfg fw Index FsType) (open_volume cfg fw Index)"
  unfolding driver_service_def
  by (auto split: if_splits dest: UnloadDriver_lines
      intro!: passes_emit_left passes_refl start_driver_passes)

lemma driver_service_passes_driver:
  "e \<in> set (snd (driver_service cfg fw Index FsType)) \<Longrightarrow> 383 \<le> fst e \<Longrightarrow> fst e < 446 \<Longrightarrow>
   passes 383 (driver_service cfg fw Index FsType) (start_driver cfg fw Index FsType)"
  unfolding driver_service_def
  by (auto split: if_splits dest: UnloadDriver_lines open_volume_lines
      intro!: passes_emit_left passes_refl)

lemma select_target_passes:
  "e \<in> set (snd (select_target cfg fw)) \<Longrightarrow> 367 \<le> fst e \<Longrightarrow>
   \<exists>Index FsType. find_target cfg fw = Inr (Index, FsType) \<and>
     passes 367 (select_target cfg fw) (driver_service cfg fw Index FsType)"
  unfolding select_target_def
  by (auto split: sum.splits intro!: passes_emit_left passes_refl)

lemma boot_context_passes:
  "e \<in> set (snd (boot_context cfg fw)) \<Longrightarrow> 312 \<le> fst e \<Longrightarrow>
   passes 312 (boot_context cfg fw) (select_target cfg fw)"
  unfolding boot_context_def
  by (auto split: if_splits intro!: passes_emit_left passes_refl)

lemma fst_out [simp]: "fst (out r) = fst r"
  by (simp add: out_def)

lemma snd_out: "e \<in> set (snd (out r)) \<Longrightarrow> fst e < 550 \<Longrightarrow> e \<in> set (snd r)"
  by (auto simp: out_def split: if_splits)

lemma secure_boot_report_lines: "e \<in> set (secure_boot_report s) \<Longrightarrow> fst e < 312"
  by (auto simp: secure_boot_report_def split: if_splits)

lemma efi_main_passes:
  assumes "e \<in> set (snd (efi_main cfg fw))" "312 \<le> fst e" "fst e < 550"
  shows "e \<in> set (snd (select_target cfg fw)) \<and>
         (\<exists>pre. efi_main cfg fw = out (emit pre (select_target cfg fw)) \<and> (\<forall>x \<in> set pre. fst x < 312))"
proof -
  from assms have "e \<in> set (secure_boot_report (SecureBootStatus fw) @ snd (boot_context cfg fw))"
    unfolding efi_main_def by (auto dest!: snd_out)
  with assms(2) have b: "e \<in> set (snd (boot_context cfg fw))"
    by (auto dest: secure_boot_report_lines)
  from boot_context_passes [OF b assms(2)] have p: "passes 312 (boot_context cfg fw) (select_target cfg fw)" .
  have "passes 312 (emit (secure_boot_report (SecureBootStatus fw)) (boot_context cfg fw)) (select_target cfg fw)"
    by (rule passes_emit_left [OF _ p]) (auto dest: secure_boot_report_lines)
  then show ?thesis
    using passes_mem [OF p b assms(2)] unfolding efi_main_def passes_def by auto
qed


lemma select_to_service:
  assumes "e \<in> set (snd (select_target cfg fw))" "367 \<le> fst e"
  shows "\<exists>Index FsType. find_target cfg fw = Inr (Index, FsType) \<and>
           passes 367 (select_target cfg fw) (driver_service cfg fw Index FsType) \<and>
           e \<in> set (snd (driver_service cfg fw Index FsType))"
  using select_target_passes [OF assms] passes_mem [OF _ assms] by blast

lemma select_to_driver:
  assumes "e \<in> set (snd (select_target cfg fw))" "383 \<le> fst e" "fst e < 446"
  shows "\<exists>Index FsType. find_target cfg fw = Inr (Index, FsType) \<and>
           passes 383 (select_target cfg fw) (start_driver cfg fw Index FsType) \<and>
           e \<in> set (snd (start_driver cfg fw Index FsType))"
proof -
  from assms(2) have "367 \<le> fst e" by simp
  from select_to_service [OF assms(1) this] obtain Index FsType where
    f: "find_target cfg fw = Inr (Index, FsType)" and
    p: "passes 367 (select_target cfg fw) (driver_service cfg fw Index FsType)" and
    m: "e \<in> set (snd (driver_service cfg fw Index FsType))" by blast
  note q = driver_service_passes_driver [OF m assms(2,3)]
  from passes_trans [OF p q] passes_mem [OF q m assms(2)] f show ?thesis by auto
qed

lemma select_to_volume:
  assumes "e \<in> set (snd (select_target cfg fw))" "446 \<le> fst e"
  shows "\<exists>Index FsType. find_target cfg fw = Inr (Index, FsType) \<and>
           passes 446 (select_target cfg fw) (open_volume cfg fw Index) \<and>
           e \<in> set (snd (open_volume cfg fw Index))"
proof -
  from assms(2) have "367 \<le> fst e" by simp
  from select_to_service [OF assms(1) this] obtain Index FsType where
    f: "find_target cfg fw = Inr (Index, FsType)" and
    p: "passes 367 (select_target cfg fw) (driver_service cfg fw Index FsType)" and
    m: "e \<in> set (snd (driver_service cfg fw Index FsType))" by blast
  note q = driver_service_passes_volume [OF m assms(2)]
  from passes_trans [OF p q] passes_mem [OF q m assms(2)] f show ?thesis by auto
qed

lemma select_to_root:
  assumes "e \<in> set (snd (select_target cfg fw))" "465 \<le> fst e"
  shows "passes 465 (select_target cfg fw) (open_root cfg fw) \<and>
         e \<in> set (snd (open_root cfg fw))"
proof -
  from assms(2) have "446 \<le> fst e" by simp
  from select_to_volume [OF assms(1) this] obtain Index where
    p: "passes 446 (select_target cfg fw) (open_volume cfg fw Index)" and
    m: "e \<in> set (snd (open_volume cfg fw Index))" by blast
  note q = open_volume_passes [OF m assms(2)]
  from passes_trans [OF p q] passes_mem [OF q m assms(2)] show ?thesis by auto
qed

lemma select_to_loader:
  assumes "e \<in> set (snd (select_target cfg fw))" "494 \<le> fst e"
  shows "passes 494 (select_target cfg fw) (load_loader fw) \<and>
         e \<in> set (snd (load_loader fw))"
proof -
  from assms(2) have "465 \<le> fst e" by simp
  from select_to_root [OF assms(1) this] have
    p: "passes 465 (select_target cfg fw) (open_root cfg fw)" and
    m: "e \<in> set (snd (open_root cfg fw))" by blast+
  note q = open_root_passes [OF m assms(2)]
  from passes_trans [OF p q] passes_mem [OF q m assms(2)] show ?thesis by auto
qed

lemma select_to_start:
  assumes "e \<in> set (snd (select_target cfg fw))" "527 \<le> fst e"
  shows "passes 527 (select_target cfg fw) (start_loader fw (fst (inspect_loader fw))) \<and>
         e \<in> set (snd (start_loader fw (fst (inspect_loader fw))))"
proof -
  from assms(2) have "494 \<le> fst e" by simp
  from select_to_loader [OF assms(1) this] have
    p: "passes 494 (select_target cfg fw) (load_loader fw)" and
    m: "e \<in> set (snd (load_loader fw))" by blast+
  note q = load_loader_passes [OF m assms(2)]
  from passes_trans [OF p q] passes_mem [OF q m assms(2)] show ?thesis by auto
qed

lemma out_emit_passes:
  assumes "r = out (emit pre0 S)" "\<forall>x \<in> set pre0. fst x < 312" "passes L S N" "312 \<le> L"
  shows "\<exists>pre. r = out (emit pre N) \<and> (\<forall>x \<in> set pre. fst x < L)"
proof -
  from assms(3) obtain pre1 where S: "S = emit pre1 N" and b: "\<forall>x \<in> set pre1. fst x < L"
    unfolding passes_def by blast
  have "r = out (emit (pre0 @ pre1) N)" using assms(1) S by (simp add: emit_emit)
  moreover have "\<forall>x \<in> set (pre0 @ pre1). fst x < L" using assms(2,4) b by fastforce
  ultimately show ?thesis by blast
qed

lemma reach_start_driver:
  assumes "e \<in> set (snd (efi_main cfg fw))" "383 \<le> fst e" "fst e < 446"
  shows "\<exists>Index FsType pre. find_target cfg fw = Inr (Index, FsType) \<and>
           efi_main cfg fw = out (emit pre (start_driver cfg fw Index FsType)) \<and>
           (\<forall>x \<in> set pre. fst x < 383)"
proof -
  from assms have "312 \<le> fst e" "fst e < 550" by simp_all
  from efi_main_passes [OF assms(1) this] obtain pre0 where
    m: "e \<in> set (snd (select_target cfg fw))" and
    r: "efi_main cfg fw = out (emit pre0 (select_target cfg fw))" and
    b: "\<forall>x \<in> set pre0. fst x < 312" by blast
  from select_to_driver [OF m assms(2,3)] obtain Index FsType where
    f: "find_target cfg fw = Inr (Index, FsType)" and
    p: "passes 383 (select_target cfg fw) (start_driver cfg fw Index FsType)" by blast
  from out_emit_passes [OF r b p] f show ?thesis by auto
qed

lemma reach_open_volume:
  assumes "e \<in> set (snd (efi_main cfg fw))" "446 \<le> fst e" "fst e < 550"
  shows "\<exists>Index FsType pre. find_target cfg fw = Inr (Index, FsType) \<and>
           efi_main cfg fw = out (emit pre (open_volume cfg fw Index)) \<and>
           (\<forall>x \<in> set pre. fst x < 446)"
proof -
  from assms have "312 \<le> fst e" by simp
  from efi_main_passes [OF assms(1) this assms(3)] obtain pre0 where
    m: "e \<in> set (snd (select_target cfg fw))" and
    r: "efi_main cfg fw = out (emit pre0 (select_target cfg fw))" and
    b: "\<forall>x \<in> set pre0. fst x < 312" by blast
  from select_to_volume [OF m assms(2)] obtain Index FsType where
    f: "find_target cfg fw = Inr (Index, FsType)" and
    p: "passes 446 (select_target cfg fw) (open_volume cfg fw Index)" by blast
  from out_emit_passes [OF r b p] f show ?thesis by auto
qed

lemma reach_load_loader:
  assumes "e \<in> set (snd (efi_main cfg fw))" "494 \<le> fst e" "fst e < 550"
  shows "\<exists>pre. efi_main cfg fw = out (emit pre (load_loader fw)) \<and> (\<forall>x \<in> set pre. fst x < 494)"
proof -
  from assms have "312 \<le> fst e" by simp
  from efi_main_passes [OF assms(1) this assms(3)] obtain pre0 where
    m: "e \<in> set (snd (select_target cfg fw))" and
    r: "efi_main cfg fw = out (emit pre0 (select_target cfg fw))" and
    b: "\<forall>x \<in> set pre0. fst x < 312" by blast
  from select_to_loader [OF m assms(2)] have
    p: "passes 494 (select_target cfg fw) (load_loader fw)" by blast
  from out_emit_passes [OF r b p] show ?thesis by auto
qed

lemma reach_start_loader:
  assumes "e \<in> set (snd (efi_main cfg fw))" "527 \<le> fst e" "fst e < 550"
  shows "\<exists>pre. efi_main cfg fw = out (emit pre (start_loader fw (fst (inspect_loader fw)))) \<and>
           (\<forall>x \<in> set pre. fst x < 527)"
proof -
  from assms have "312 \<le> fst e" by simp
  from efi_main_passes [OF assms(1) this assms(3)] obtain pre0 where
    m: "e \<in> set (snd (select_target cfg fw))" and
    r: "efi_main cfg fw = out (emit pre0 (select_target cfg fw))" and
    b: "\<forall>x \<in> set pre0. fst x < 312" by blast
  from select_to_start [OF m assms(2)] have
    p: "passes 527 (select_target cfg fw) (start_loader fw (fst (inspect_loader fw)))" by blast
  from out_emit_passes [OF r b p] show ?thesis by auto
qed

lemma mem_out_emit:
  assumes "e \<in> set (snd (out (emit pre S)))" "\<forall>x \<in> set pre. fst x < L" "L \<le> fst e" "fst e < 550"
  shows "e \<in> set (snd S)"
proof -
  from snd_out [OF assms(1,4)] have "e \<in> set pre \<or> e \<in> set (snd S)" by auto
  with assms(2,3) show ?thesis by fastforce
qed

lemma SecureBootState_Enabled: "(SecureBootState s = Enabled) = (1 \<le> s)"
  by (auto simp: SecureBootState_def)

lemma at_lines_append [simp]: "at_lines L (xs @ ys) = at_lines L xs @ at_lines L ys"
  by (simp add: at_lines_def)

lemma at_lines_Nil [simp]: "at_lines L [] = []"
  by (simp add: at_lines_def)

lemma at_lines_Cons [simp]:
  "at_lines L (e # es) = (if fst e \<in> L then snd e # at_lines L es else at_lines L es)"
  by (simp add: at_lines_def)

lemma at_lines_empty: "(\<And>e. e \<in> set tr \<Longrightarrow> fst e \<notin> L) \<Longrightarrow> at_lines L tr = []"
  by (induction tr) auto

lemma at_lines_out: "550 \<notin> L \<Longrightarrow> at_lines L (snd (out r)) = at_lines L (snd r)"
  by (simp add: out_def)





lemma Stall_argument_exact:
  assumes "0 \<le> d" "d * 1000000 < 2 ^ 31"
  shows "Stall_argument d = nat (d * 1000000)"
proof -
  from assms have p: "0 \<le> d * 1000000" by simp
  with assms(2) have "(d * 1000000 + 2 ^ 31) mod 2 ^ 32 = d * 1000000 + 2 ^ 31"
    by (intro mod_pos_pos_trivial) simp_all
  then have "int32 (d * 1000000) = d * 1000000" by (simp add: int32_def)
  moreover from p assms(2) have "(d * 1000000) mod 2 ^ 64 = d * 1000000"
    by (intro mod_pos_pos_trivial) simp_all
  ultimately show ?thesis by (simp add: Stall_argument_def)
qed

lemma open_volume_loop_schedule:
  "\<exists>k. Try + k \<le> max Try (NUM_RETRIES cfg)
     \<and> at_lines {450, 458} (snd (open_volume_loop cfg fw Index Try))
        = schedule Index (Stall_argument (DELAY cfg)) k
     \<and> at_lines {450} (snd (open_volume_loop cfg fw Index Try))
        = replicate (Suc k) (OpenVolume Index)
     \<and> (\<forall>t<k. EFI_ERROR (OpenVolumeStatus fw (Try + t)))
     \<and> (if EFI_ERROR (OpenVolumeStatus fw (Try + k))
        then fst (open_volume_loop cfg fw Index Try) = Inl (OpenVolumeStatus fw (Try + k))
             \<and> NUM_RETRIES cfg \<le> Try + k
        else fst (open_volume_loop cfg fw Index Try) = Inr (OpenVolumeStatus fw (Try + k)))"
proof (induction cfg fw Index Try rule: open_volume_loop.induct)
  case (1 cfg fw Index Try)
  show ?case
  proof (cases "\<not> EFI_ERROR (OpenVolumeStatus fw Try)")
    case True
    then show ?thesis
      by (intro exI [of _ 0]) (simp add: open_volume_loop.simps [of cfg fw Index Try])
  next
    case err: False
    show ?thesis
    proof (cases "NUM_RETRIES cfg \<le> Try")
      case True
      with err show ?thesis
        by (intro exI [of _ 0]) (simp add: open_volume_loop.simps [of cfg fw Index Try])
    next
      case False
      from "1.IH" [OF _ False] err obtain k where
        k: "Try + 1 + k \<le> max (Try + 1) (NUM_RETRIES cfg)"
        and s: "at_lines {450, 458} (snd (open_volume_loop cfg fw Index (Try + 1)))
                = schedule Index (Stall_argument (DELAY cfg)) k"
        and c: "at_lines {450} (snd (open_volume_loop cfg fw Index (Try + 1)))
                = replicate (Suc k) (OpenVolume Index)"
        and e: "\<forall>t<k. EFI_ERROR (OpenVolumeStatus fw (Try + 1 + t))"
        and r: "if EFI_ERROR (OpenVolumeStatus fw (Try + 1 + k))
                then fst (open_volume_loop cfg fw Index (Try + 1))
                       = Inl (OpenVolumeStatus fw (Try + 1 + k))
                     \<and> NUM_RETRIES cfg \<le> Try + 1 + k
                else fst (open_volume_loop cfg fw Index (Try + 1))
                       = Inr (OpenVolumeStatus fw (Try + 1 + k))"
        by auto
      have e': "\<forall>t<Suc k. EFI_ERROR (OpenVolumeStatus fw (Try + t))"
      proof (intro allI impI)
        fix t assume "t < Suc k"
        show "EFI_ERROR (OpenVolumeStatus fw (Try + t))"
        proof (cases t)
          case 0
          with err show ?thesis by simp
        next
          case (Suc t')
          with \<open>t < Suc k\<close> e have "EFI_ERROR (OpenVolumeStatus fw (Try + 1 + t'))" by simp
          with Suc show ?thesis by simp
        qed
      qed
      from False err k s c r e' show ?thesis
        by (intro exI [of _ "Suc k"])
           (auto simp: open_volume_loop.simps [of cfg fw Index Try] split: if_splits)
    qed
  qed
qed

lemma BootMgrName_length: "length BootMgrName = 12"
  by (simp add: BootMgrName_def)

lemma CompareMem_BootMgrName:
  "(CompareMem (drop i img) BootMgrName (length BootMgrName) = 0)
     = (take 12 (drop i img) = BootMgrName)"
  by (simp add: CompareMem_def BootMgrName_length)

lemma WindowsBootMgr_loop_iff:
  "WindowsBootMgr_loop img Index
     = (\<exists>i. Index \<le> i \<and> i < (length img + 2 ^ 64 - 12) mod 2 ^ 64
            \<and> take 12 (drop i img) = BootMgrName)"
proof (induction img Index rule: WindowsBootMgr_loop.induct)
  case (1 img Index)
  let ?bound = "(length img + 2 ^ 64 - 12) mod 2 ^ 64"
  show ?case
  proof (cases "Index < ?bound")
    case False
    then show ?thesis
      by (subst WindowsBootMgr_loop.simps) (auto simp: BootMgrName_length)
  next
    case True
    show ?thesis
    proof (cases "take 12 (drop Index img) = BootMgrName")
      case m: True
      with True show ?thesis
        by (subst WindowsBootMgr_loop.simps)
           (auto simp: BootMgrName_length CompareMem_BootMgrName [unfolded BootMgrName_length])
    next
      case m: False
      from True m have ih: "WindowsBootMgr_loop img (Index + 1)
          = (\<exists>i. Index + 1 \<le> i \<and> i < ?bound \<and> take 12 (drop i img) = BootMgrName)"
        by (intro "1.IH") (simp_all add: BootMgrName_length CompareMem_def)
      have "(\<exists>i. Index + 1 \<le> i \<and> i < ?bound \<and> take 12 (drop i img) = BootMgrName)
          = (\<exists>i. Index \<le> i \<and> i < ?bound \<and> take 12 (drop i img) = BootMgrName)"
        using m by (metis Suc_eq_plus1 Suc_leI le_neq_implies_less Suc_leD)
      with True m ih show ?thesis
        by (subst WindowsBootMgr_loop.simps)
           (simp add: BootMgrName_length CompareMem_BootMgrName [unfolded BootMgrName_length])
    qed
  qed
qed

lemma marker_inside: "take 12 (drop i img) = BootMgrName \<Longrightarrow> i + 12 \<le> length img"
proof -
  assume "take 12 (drop i img) = BootMgrName"
  then have "length (take 12 (drop i img)) = 12" by (simp add: BootMgrName_length)
  then show ?thesis by simp
qed

lemma WindowsBootMgr_found:
  assumes "length img < 2 ^ 64" "0x40 \<le> i" "i + 12 < length img" "take 12 (drop i img) = BootMgrName"
  shows "WindowsBootMgr_loop img 0x40"
proof -
  from assms(1,3) have "(length img + 2 ^ 64 - 12) mod 2 ^ 64 = length img - 12"
    by (simp add: mod_if)
  with assms show ?thesis unfolding WindowsBootMgr_loop_iff by (intro exI [of _ i]) simp
qed

lemma WindowsBootMgr_not_found:
  assumes "\<not> (\<exists>i\<ge>0x40. take 12 (drop i img) = BootMgrName)"
  shows "\<not> WindowsBootMgr_loop img 0x40"
  using assms unfolding WindowsBootMgr_loop_iff by blast

lemma mem_out_emit_iff:
  assumes "\<forall>x \<in> set pre. fst x < L" "L \<le> fst e" "fst e < 550"
  shows "(e \<in> set (snd (out (emit pre S)))) = (e \<in> set (snd S))"
proof
  assume "e \<in> set (snd (out (emit pre S)))"
  from mem_out_emit [OF this assms] show "e \<in> set (snd S)" .
next
  assume "e \<in> set (snd S)"
  then show "e \<in> set (snd (out (emit pre S)))" by (simp add: out_def)
qed

lemma inspect_loader_fst:
  "fst (inspect_loader fw)
     = (\<not> EFI_ERROR (LoaderImageStatus fw) \<and> WindowsBootMgr_loop (LoaderImage fw) 0x40)"
  by (simp add: inspect_loader_def)

section \<open>The claims\<close>



text \<open>
  C2. The value of \<open>FsType\<close> that the signature loop leaves is a function of the 8-byte
  window at offset 3 of the block alone: 0 (NTFS) for "NTFS    ", 1 (exFAT) for "EXFAT   ",
  and 2, the size of the table (Unknown), for any other window. A handle whose block read
  fails is skipped: the search goes on with the next handle as if it had started there, so
  the failure is never the end of the run.
\<close>

theorem classification_by_window_and_read_failure_skips:
  "FsType_loop Block 0 = fs_index (classify_window (window Block))
   \<and> (Index < length Hs \<and> EFI_ERROR (ReadStatus (Hs ! Index))
      \<longrightarrow> locate_target dbg BootPartitionPath BootDiskPath Hs Index FsType
          = locate_target dbg BootPartitionPath BootDiskPath Hs (Index + 1) FsType)"
proof (intro conjI impI)
  show "FsType_loop Block 0 = fs_index (classify_window (window Block))"
    by (rule FsType_loop_window)
next
  assume a: "Index < length Hs \<and> EFI_ERROR (ReadStatus (Hs ! Index))"
  then have "\<exists>y. target_body dbg BootPartitionPath BootDiskPath (Hs ! Index) FsType = Inl y"
    by (simp add: target_body_def Let_def)
  with a show "locate_target dbg BootPartitionPath BootDiskPath Hs Index FsType
          = locate_target dbg BootPartitionPath BootDiskPath Hs (Index + 1) FsType"
    using locate_target_continue by blast
qed

theorem classification_by_window_and_read_failure_skips_witness:
  "FsType_loop ntfs_block 0 = 0 \<and> FsType_loop exfat_block 0 = 1 \<and> FsType_loop fat_block 0 = 2
   \<and> 1 < length (Handles unreadable_firmware)
   \<and> EFI_ERROR (ReadStatus (Handles unreadable_firmware ! 1))
   \<and> window (ReadBuffer (Handles unreadable_firmware ! 1)) = map of_char ''NTFS    ''
   \<and> locate_target False (BootDevicePath unreadable_firmware)
        (GetParentDevice (BootDevicePath unreadable_firmware)) (Handles unreadable_firmware) 1 0
      = Inr (2, 1)"
proof -
  have w: "classify_window (window ntfs_block) = NTFS" "classify_window (window exfat_block) = exFAT"
    "classify_window (window fat_block) = Unknown"
    by (simp_all add: spec_defs example_defs)
  have h: "1 < length (Handles unreadable_firmware)
      \<and> EFI_ERROR (ReadStatus (Handles unreadable_firmware ! 1))"
    by (simp add: example_defs EFI_ERROR_def)
  have b: "window (ReadBuffer (Handles unreadable_firmware ! 1)) = map of_char ''NTFS    ''"
    by (simp add: spec_defs example_defs)
  have e: "locate_target False (BootDevicePath unreadable_firmware)
        (GetParentDevice (BootDevicePath unreadable_firmware)) (Handles unreadable_firmware) (1 + 1) 0
      = Inr (2, 1)"
    by (simp add: run_defs example_defs)
  from w h b e
    classification_by_window_and_read_failure_skips [of ntfs_block]
    classification_by_window_and_read_failure_skips [of exfat_block]
    classification_by_window_and_read_failure_skips [of fat_block 1 "Handles unreadable_firmware"
      False "BootDevicePath unreadable_firmware"
      "GetParentDevice (BootDevicePath unreadable_firmware)" 0]
  show ?thesis by simp
qed

text \<open>
  C3. A handle for which \<open>CompareDevicePaths\<close> against the boot partition's path returns 0,
  in particular one whose device path is structurally equal to the boot partition's, is
  skipped by the search; and the handle the search selects is an enumerated handle whose
  device path compares unequal to, and so differs from, the boot partition's.
\<close>

theorem boot_partition_never_target:
  "(Index < length Hs \<and> CompareDevicePaths (DevicePath (Hs ! Index)) BootPartitionPath = 0
      \<longrightarrow> locate_target dbg BootPartitionPath BootDiskPath Hs Index FsType
          = locate_target dbg BootPartitionPath BootDiskPath Hs (Index + 1) FsType)
   \<and> (Index < length Hs \<and> DevicePath (Hs ! Index) = BootPartitionPath
      \<longrightarrow> locate_target dbg BootPartitionPath BootDiskPath Hs Index FsType
          = locate_target dbg BootPartitionPath BootDiskPath Hs (Index + 1) FsType)
   \<and> (find_target cfg fw = Inr (i, ft)
      \<longrightarrow> i < length (Handles fw)
          \<and> CompareDevicePaths (DevicePath (Handles fw ! i)) (BootDevicePath fw) \<noteq> 0
          \<and> DevicePath (Handles fw ! i) \<noteq> BootDevicePath fw)"
proof -
  have skip: "locate_target dbg BootPartitionPath BootDiskPath Hs Index FsType
          = locate_target dbg BootPartitionPath BootDiskPath Hs (Index + 1) FsType"
    if "Index < length Hs" "CompareDevicePaths (DevicePath (Hs ! Index)) BootPartitionPath = 0"
  proof -
    from that(2)
    have "target_body dbg BootPartitionPath BootDiskPath (Hs ! Index) FsType = Inl FsType"
      by (simp add: target_body_def)
    with that(1) show ?thesis using locate_target_continue by blast
  qed
  have eq: "CompareDevicePaths p p = 0" for p
    by (simp add: CompareDevicePaths_def)
  have sel: "i < length (Handles fw)
          \<and> CompareDevicePaths (DevicePath (Handles fw ! i)) (BootDevicePath fw) \<noteq> 0
          \<and> DevicePath (Handles fw ! i) \<noteq> BootDevicePath fw"
    if f: "find_target cfg fw = Inr (i, ft)"
  proof -
    from locate_target_Inr [OF f [unfolded find_target_def]] obtain f0 where
      i: "i < length (Handles fw)" and
      b: "target_body (DEBUG cfg) (BootDevicePath fw) (GetParentDevice (BootDevicePath fw))
            (Handles fw ! i) f0 = Inr ft" by blast
    from target_body_Inr_compare [OF b]
    have c: "CompareDevicePaths (DevicePath (Handles fw ! i)) (BootDevicePath fw) \<noteq> 0" by simp
    with eq have "DevicePath (Handles fw ! i) \<noteq> BootDevicePath fw" by auto
    with i c show ?thesis by simp
  qed
  show ?thesis
  proof (intro conjI impI)
    assume "Index < length Hs
      \<and> CompareDevicePaths (DevicePath (Hs ! Index)) BootPartitionPath = 0"
    then show "locate_target dbg BootPartitionPath BootDiskPath Hs Index FsType
          = locate_target dbg BootPartitionPath BootDiskPath Hs (Index + 1) FsType"
      using skip by blast
  next
    assume "Index < length Hs \<and> DevicePath (Hs ! Index) = BootPartitionPath"
    then show "locate_target dbg BootPartitionPath BootDiskPath Hs Index FsType
          = locate_target dbg BootPartitionPath BootDiskPath Hs (Index + 1) FsType"
      using skip eq by simp
  next
    assume f: "find_target cfg fw = Inr (i, ft)"
    from sel [OF f] show "i < length (Handles fw)" by simp
    from sel [OF f]
    show "CompareDevicePaths (DevicePath (Handles fw ! i)) (BootDevicePath fw) \<noteq> 0" by simp
    from sel [OF f] show "DevicePath (Handles fw ! i) \<noteq> BootDevicePath fw" by simp
  qed
qed

theorem boot_partition_never_target_witness:
  "0 < length (Handles boot_copy_firmware)
   \<and> DevicePath (Handles boot_copy_firmware ! 0) = BootDevicePath boot_copy_firmware
   \<and> classification (Handles boot_copy_firmware ! 0) = NTFS
   \<and> find_target example_build boot_copy_firmware = Inr (1, 0)
   \<and> DevicePath (Handles boot_copy_firmware ! 1) \<noteq> BootDevicePath boot_copy_firmware"
proof -
  have h: "0 < length (Handles boot_copy_firmware)
      \<and> DevicePath (Handles boot_copy_firmware ! 0) = BootDevicePath boot_copy_firmware"
    by (simp add: example_defs)
  have c: "classification (Handles boot_copy_firmware ! 0) = NTFS"
    by (simp add: spec_defs example_defs EFI_ERROR_def)
  have e: "locate_target (DEBUG example_build) (BootDevicePath boot_copy_firmware)
      (GetParentDevice (BootDevicePath boot_copy_firmware)) (Handles boot_copy_firmware) (0 + 1) 0
      = Inr (1, 0)"
    by (simp add: run_defs example_defs)
  from h boot_partition_never_target [of 0 "Handles boot_copy_firmware"
      "BootDevicePath boot_copy_firmware" "DEBUG example_build"
      "GetParentDevice (BootDevicePath boot_copy_firmware)" 0]
  have "locate_target (DEBUG example_build) (BootDevicePath boot_copy_firmware)
      (GetParentDevice (BootDevicePath boot_copy_firmware)) (Handles boot_copy_firmware) 0 0
    = locate_target (DEBUG example_build) (BootDevicePath boot_copy_firmware)
      (GetParentDevice (BootDevicePath boot_copy_firmware)) (Handles boot_copy_firmware) (0 + 1) 0"
    by blast
  with e have f: "find_target example_build boot_copy_firmware = Inr (1, 0)"
    by (simp add: find_target_def)
  from f boot_partition_never_target [of _ _ _ _ _ _ example_build boot_copy_firmware 1 0]
  have "DevicePath (Handles boot_copy_firmware ! 1) \<noteq> BootDevicePath boot_copy_firmware"
    by blast
  with h c f show ?thesis by simp
qed

text \<open>
  C8. In a release build the selected handle's parent path (its device path without the
  last node) compares equal to, and so equals, \<open>BootDiskPath\<close>: the path of the boot disk,
  which is the parent path of the boot partition (line 298). In a debug build the search
  does not depend on \<open>BootDiskPath\<close> at all.
\<close>

theorem same_device_in_release_builds_only:
  "(\<not> DEBUG cfg \<and> find_target cfg fw = Inr (i, ft)
      \<longrightarrow> CompareDevicePaths (GetParentDevice (BootDevicePath fw))
            (GetParentDevice (DevicePath (Handles fw ! i))) = 0
          \<and> GetParentDevice (DevicePath (Handles fw ! i)) = GetParentDevice (BootDevicePath fw))
   \<and> locate_target True BootPartitionPath BootDiskPath Hs Index FsType
      = locate_target True BootPartitionPath BootDiskPath' Hs Index FsType"
proof (intro conjI impI)
  assume a: "\<not> DEBUG cfg \<and> find_target cfg fw = Inr (i, ft)"
  then have f: "locate_target False (BootDevicePath fw) (GetParentDevice (BootDevicePath fw))
      (Handles fw) 0 0 = Inr (i, ft)"
    by (auto simp: find_target_def)
  from locate_target_Inr [OF f] obtain f0 where
    b: "target_body False (BootDevicePath fw) (GetParentDevice (BootDevicePath fw))
          (Handles fw ! i) f0 = Inr ft" by blast
  from target_body_Inr_compare [OF b]
  show c: "CompareDevicePaths (GetParentDevice (BootDevicePath fw))
            (GetParentDevice (DevicePath (Handles fw ! i))) = 0" by simp
  then show "GetParentDevice (DevicePath (Handles fw ! i)) = GetParentDevice (BootDevicePath fw)"
    by (simp add: CompareDevicePaths_def split: if_splits)
next
  show "locate_target True BootPartitionPath BootDiskPath Hs Index FsType
      = locate_target True BootPartitionPath BootDiskPath' Hs Index FsType"
    by (simp add: locate_target_def target_loop_debug [of _ BootDiskPath _ _ _ BootDiskPath'])
qed

theorem same_device_in_release_builds_only_witness:
  "\<not> DEBUG example_build
   \<and> find_target example_build two_disk_firmware = Inr (2, 0)
   \<and> GetParentDevice (DevicePath (Handles two_disk_firmware ! 2))
      = GetParentDevice (BootDevicePath two_disk_firmware)
   \<and> classification (Handles two_disk_firmware ! 1) = NTFS
   \<and> GetParentDevice (DevicePath (Handles two_disk_firmware ! 1))
      \<noteq> GetParentDevice (BootDevicePath two_disk_firmware)
   \<and> find_target debug_build two_disk_firmware = Inr (1, 0)"
proof -
  have r: "\<not> DEBUG example_build \<and> find_target example_build two_disk_firmware = Inr (2, 0)"
    by (simp add: run_defs example_defs)
  have c: "classification (Handles two_disk_firmware ! 1) = NTFS
     \<and> GetParentDevice (DevicePath (Handles two_disk_firmware ! 1))
        \<noteq> GetParentDevice (BootDevicePath two_disk_firmware)"
    by (simp add: spec_defs example_defs EFI_ERROR_def GetParentDevice_def)
  have d: "locate_target True (BootDevicePath two_disk_firmware) other_disk
      (Handles two_disk_firmware) 0 0 = Inr (1, 0)"
    by (simp add: run_defs example_defs)
  from same_device_in_release_builds_only [of _ _ _ _ "BootDevicePath two_disk_firmware"
      "GetParentDevice (BootDevicePath two_disk_firmware)" "Handles two_disk_firmware" 0 0 other_disk]
  have "locate_target True (BootDevicePath two_disk_firmware)
      (GetParentDevice (BootDevicePath two_disk_firmware)) (Handles two_disk_firmware) 0 0
    = locate_target True (BootDevicePath two_disk_firmware) other_disk
      (Handles two_disk_firmware) 0 0" by blast
  with d have g: "find_target debug_build two_disk_firmware = Inr (1, 0)"
    by (simp add: find_target_def debug_build_def)
  from r same_device_in_release_builds_only [of example_build two_disk_firmware 2 0]
  have "GetParentDevice (DevicePath (Handles two_disk_firmware ! 2))
      = GetParentDevice (BootDevicePath two_disk_firmware)" by blast
  with r c g show ?thesis by simp
qed

text \<open>
  C4 (as amended). When loading the companion driver (line 397) or the next-stage loader
  (line 503) fails with \<open>EFI_ACCESS_DENIED\<close>, the run returns \<open>EFI_SECURITY_VIOLATION\<close> if the
  secure boot state is Enabled, and \<open>EFI_ACCESS_DENIED\<close> itself if it is Setup or Disabled.
\<close>

theorem access_denied_remapped_when_enabled:
  "((397, LoadImage (CompanionDriver FsType)) \<in> set (snd (efi_main cfg fw))
      \<and> DriverLoadStatus fw = EFI_ACCESS_DENIED
    \<longrightarrow> fst (efi_main cfg fw)
        = (if SecureBootState (SecureBootStatus fw) = Enabled then EFI_SECURITY_VIOLATION
           else EFI_ACCESS_DENIED))
   \<and> ((503, LoadImage NextStageLoader) \<in> set (snd (efi_main cfg fw))
      \<and> LoaderLoadStatus fw = EFI_ACCESS_DENIED
    \<longrightarrow> fst (efi_main cfg fw)
        = (if SecureBootState (SecureBootStatus fw) = Enabled then EFI_SECURITY_VIOLATION
           else EFI_ACCESS_DENIED))"
proof (intro conjI impI)
  assume a: "(397, LoadImage (CompanionDriver FsType)) \<in> set (snd (efi_main cfg fw))
      \<and> DriverLoadStatus fw = EFI_ACCESS_DENIED"
  then have m: "(397, LoadImage (CompanionDriver FsType)) \<in> set (snd (efi_main cfg fw))" by simp
  from reach_start_driver [OF m] obtain Index FsType' pre where
    r: "efi_main cfg fw = out (emit pre (start_driver cfg fw Index FsType'))" and
    b: "\<forall>x \<in> set pre. fst x < 383" by auto
  from mem_out_emit [OF m [unfolded r] b]
  have "(397, LoadImage (CompanionDriver FsType)) \<in> set (snd (start_driver cfg fw Index FsType'))"
    by simp
  with a have "fst (start_driver cfg fw Index FsType')
      = (if 1 \<le> SecureBootStatus fw then EFI_SECURITY_VIOLATION else EFI_ACCESS_DENIED)"
    by (auto simp: start_driver_def split: if_splits)
  with r show "fst (efi_main cfg fw)
        = (if SecureBootState (SecureBootStatus fw) = Enabled then EFI_SECURITY_VIOLATION
           else EFI_ACCESS_DENIED)"
    by (simp add: SecureBootState_Enabled)
next
  assume a: "(503, LoadImage NextStageLoader) \<in> set (snd (efi_main cfg fw))
      \<and> LoaderLoadStatus fw = EFI_ACCESS_DENIED"
  then have m: "(503, LoadImage NextStageLoader) \<in> set (snd (efi_main cfg fw))" by simp
  from reach_load_loader [OF m] obtain pre where
    r: "efi_main cfg fw = out (emit pre (load_loader fw))" and
    b: "\<forall>x \<in> set pre. fst x < 494" by auto
  from mem_out_emit [OF m [unfolded r] b]
  have "(503, LoadImage NextStageLoader) \<in> set (snd (load_loader fw))"
    by simp
  with a have "fst (load_loader fw)
      = (if 1 \<le> SecureBootStatus fw then EFI_SECURITY_VIOLATION else EFI_ACCESS_DENIED)"
    by (auto simp: load_loader_def split: if_splits)
  with r show "fst (efi_main cfg fw)
        = (if SecureBootState (SecureBootStatus fw) = Enabled then EFI_SECURITY_VIOLATION
           else EFI_ACCESS_DENIED)"
    by (simp add: SecureBootState_Enabled)
qed

theorem access_denied_remapped_when_enabled_witness:
  "(397, LoadImage (CompanionDriver 0)) \<in> set (snd (efi_main example_build driver_denied_firmware))
   \<and> DriverLoadStatus driver_denied_firmware = EFI_ACCESS_DENIED
   \<and> SecureBootState (SecureBootStatus driver_denied_firmware) = Enabled
   \<and> fst (efi_main example_build driver_denied_firmware) = EFI_SECURITY_VIOLATION
   \<and> (503, LoadImage NextStageLoader) \<in> set (snd (efi_main example_build loader_denied_firmware))
   \<and> LoaderLoadStatus loader_denied_firmware = EFI_ACCESS_DENIED
   \<and> SecureBootState (SecureBootStatus loader_denied_firmware) = Enabled
   \<and> fst (efi_main example_build loader_denied_firmware) = EFI_SECURITY_VIOLATION"
proof -
  have d: "(397, LoadImage (CompanionDriver 0))
        \<in> set (snd (efi_main example_build driver_denied_firmware))
      \<and> DriverLoadStatus driver_denied_firmware = EFI_ACCESS_DENIED"
    by (simp add: run_defs example_defs)
  have l: "(503, LoadImage NextStageLoader)
        \<in> set (snd (efi_main example_build loader_denied_firmware))
      \<and> LoaderLoadStatus loader_denied_firmware = EFI_ACCESS_DENIED"
    by (simp add: run_defs example_defs)
  have s: "SecureBootState (SecureBootStatus driver_denied_firmware) = Enabled"
    "SecureBootState (SecureBootStatus loader_denied_firmware) = Enabled"
    by (simp_all add: spec_defs example_defs)
  from d l s
    access_denied_remapped_when_enabled [of 0 example_build driver_denied_firmware]
    access_denied_remapped_when_enabled [of _ example_build loader_denied_firmware]
  show ?thesis by simp
qed

text \<open>
  C4 as stated fails: in Setup mode (\<open>SecureBootStatus < 0\<close>, which line 282 reports as
  "Setup") an access-denied load failure is returned as \<open>EFI_ACCESS_DENIED\<close>.
\<close>

theorem setup_mode_access_denied_counterexample:
  "SecureBootState (SecureBootStatus setup_denied_firmware) = Setup
   \<and> (397, LoadImage (CompanionDriver 0)) \<in> set (snd (efi_main example_build setup_denied_firmware))
   \<and> DriverLoadStatus setup_denied_firmware = EFI_ACCESS_DENIED
   \<and> fst (efi_main example_build setup_denied_firmware) = EFI_ACCESS_DENIED
   \<and> fst (efi_main example_build setup_denied_firmware) \<noteq> EFI_SECURITY_VIOLATION"
  by (simp add: run_defs example_defs spec_defs)



text \<open>
  C6. A run makes at most \<open>NUM_RETRIES + 1\<close> open attempts (line 450). The attempts and the
  stalls (line 458) of a run are none, or \<open>k + 1\<close> attempts on the target handle with one
  stall between consecutive attempts, where \<open>k \<le> NUM_RETRIES\<close>, every attempt before the
  last failed, and the last one succeeded unless it was attempt number \<open>NUM_RETRIES + 1\<close>.
  Every stall has the same argument, the value of \<open>DELAY * 1000000\<close> as line 458 computes it
  in C \<open>int\<close> and passes it as \<open>UINTN\<close>; it is \<open>DELAY * 1000000\<close> microseconds when \<open>DELAY\<close>
  is not negative and the product fits a C \<open>int\<close>.
\<close>

theorem retry_is_bounded_and_stops_at_first_success:
  "length (at_lines {450} (snd (efi_main cfg fw))) \<le> NUM_RETRIES cfg + 1
   \<and> (at_lines {450, 458} (snd (efi_main cfg fw)) = []
      \<or> (\<exists>Index FsType k. find_target cfg fw = Inr (Index, FsType) \<and> k \<le> NUM_RETRIES cfg
            \<and> at_lines {450, 458} (snd (efi_main cfg fw))
               = schedule Index (Stall_argument (DELAY cfg)) k
            \<and> (\<forall>t<k. EFI_ERROR (OpenVolumeStatus fw t))
            \<and> (k < NUM_RETRIES cfg \<longrightarrow> \<not> EFI_ERROR (OpenVolumeStatus fw k))))
   \<and> (0 \<le> DELAY cfg \<and> DELAY cfg * 1000000 < 2 ^ 31
      \<longrightarrow> Stall_argument (DELAY cfg) = nat (DELAY cfg * 1000000))"
proof -
  have run: "length (at_lines {450} (snd (efi_main cfg fw))) \<le> NUM_RETRIES cfg + 1
   \<and> (at_lines {450, 458} (snd (efi_main cfg fw)) = []
      \<or> (\<exists>Index FsType k. find_target cfg fw = Inr (Index, FsType) \<and> k \<le> NUM_RETRIES cfg
            \<and> at_lines {450, 458} (snd (efi_main cfg fw))
               = schedule Index (Stall_argument (DELAY cfg)) k
            \<and> (\<forall>t<k. EFI_ERROR (OpenVolumeStatus fw t))
            \<and> (k < NUM_RETRIES cfg \<longrightarrow> \<not> EFI_ERROR (OpenVolumeStatus fw k))))"
  proof (cases "\<exists>e \<in> set (snd (efi_main cfg fw)). fst e \<in> {450, 458}")
  case False
  then have "at_lines {450, 458} (snd (efi_main cfg fw)) = []"
    by (intro at_lines_empty) blast
  moreover from False have "at_lines {450} (snd (efi_main cfg fw)) = []"
    by (intro at_lines_empty) blast
  ultimately show ?thesis by simp
next
  case True
  then obtain e where m: "e \<in> set (snd (efi_main cfg fw))" and l: "446 \<le> fst e" "fst e < 550"
    by auto
  from reach_open_volume [OF m l] obtain Index FsType pre where
    f: "find_target cfg fw = Inr (Index, FsType)" and
    r: "efi_main cfg fw = out (emit pre (open_volume cfg fw Index))" and
    b: "\<forall>x \<in> set pre. fst x < 446" by blast
  from open_volume_loop_schedule [of 0 cfg fw Index] obtain k where
    k: "k \<le> NUM_RETRIES cfg"
    and s: "at_lines {450, 458} (snd (open_volume_loop cfg fw Index 0))
            = schedule Index (Stall_argument (DELAY cfg)) k"
    and c: "at_lines {450} (snd (open_volume_loop cfg fw Index 0))
            = replicate (Suc k) (OpenVolume Index)"
    and e: "\<forall>t<k. EFI_ERROR (OpenVolumeStatus fw t)"
    and x: "EFI_ERROR (OpenVolumeStatus fw k) \<longrightarrow> NUM_RETRIES cfg \<le> k"
    by (auto split: if_splits)
  have p: "at_lines L pre = []" if "L \<subseteq> {450, 458}" for L
    by (rule at_lines_empty) (use b that in fastforce)
  have q: "at_lines L (snd (open_root cfg fw)) = []" if "L \<subseteq> {450, 458}" for L
    by (rule at_lines_empty) (use open_root_lines that in fastforce)
  have v: "at_lines L (snd (efi_main cfg fw)) = at_lines L (snd (open_volume_loop cfg fw Index 0))"
    if "L \<subseteq> {450, 458}" for L
  proof -
    from that have n: "550 \<notin> L" "446 \<notin> L" by auto
    show ?thesis
      using p [OF that] q [OF that] n
      by (simp add: r at_lines_out open_volume_def split: sum.splits)
  qed
  from v [of "{450}"] c k have "length (at_lines {450} (snd (efi_main cfg fw))) \<le> NUM_RETRIES cfg + 1"
    by simp
  moreover from v [of "{450, 458}"] s
  have "at_lines {450, 458} (snd (efi_main cfg fw)) = schedule Index (Stall_argument (DELAY cfg)) k"
    by simp
  ultimately show ?thesis using f k e x by (intro conjI disjI2 exI [of _ Index] exI [of _ FsType] exI [of _ k]) auto
  qed
  have fits: "0 \<le> DELAY cfg \<and> DELAY cfg * 1000000 < 2 ^ 31
      \<longrightarrow> Stall_argument (DELAY cfg) = nat (DELAY cfg * 1000000)"
    using Stall_argument_exact by blast
  from run fits show ?thesis by blast
qed

theorem retry_is_bounded_and_stops_at_first_success_witness:
  "at_lines {450, 458} (snd (efi_main example_build slow_firmware))
     = [OpenVolume 1, Stall 3000000, OpenVolume 1]
   \<and> EFI_ERROR (OpenVolumeStatus slow_firmware 0)
   \<and> \<not> EFI_ERROR (OpenVolumeStatus slow_firmware 1)
   \<and> length (at_lines {450} (snd (efi_main example_build slow_firmware)))
       \<le> NUM_RETRIES example_build + 1
   \<and> at_lines {450, 458} (snd (efi_main example_build good_firmware)) = [OpenVolume 1]
   \<and> fst (efi_main example_build slow_firmware) = EFI_SUCCESS
   \<and> DELAY example_build = 3
   \<and> Stall_argument (DELAY example_build) = 3000000"
proof -
  have a: "at_lines {450, 458} (snd (efi_main example_build slow_firmware))
     = [OpenVolume 1, Stall 3000000, OpenVolume 1]"
    by (simp add: run_defs example_defs)
  have b: "EFI_ERROR (OpenVolumeStatus slow_firmware 0)"
    "\<not> EFI_ERROR (OpenVolumeStatus slow_firmware 1)"
    by (simp_all add: example_defs EFI_ERROR_def)
  have c: "at_lines {450, 458} (snd (efi_main example_build good_firmware)) = [OpenVolume 1]"
    by (simp add: run_defs example_defs)
  have d: "fst (efi_main example_build slow_firmware) = EFI_SUCCESS"
    by (simp add: run_defs example_defs)
  have e: "length (at_lines {450} (snd (efi_main example_build slow_firmware)))
       \<le> NUM_RETRIES example_build + 1"
    by (rule retry_is_bounded_and_stops_at_first_success
          [of example_build slow_firmware, THEN conjunct1])
  have g: "DELAY example_build = 3" by (simp add: example_build_def)
  have h: "0 \<le> DELAY example_build \<and> DELAY example_build * 1000000 < 2 ^ 31"
    by (simp add: example_build_def)
  from h retry_is_bounded_and_stops_at_first_success [of example_build slow_firmware]
  have "Stall_argument (DELAY example_build) = nat (DELAY example_build * 1000000)"
    by blast
  with g have i: "Stall_argument (DELAY example_build) = 3000000" by simp
  from a b c d e g i show ?thesis by blast
qed

text \<open>
  Where the product does not fit a C \<open>int\<close> it wraps around: with \<open>DELAY\<close> = 3000 the run
  calls \<open>Stall\<close> with 18446744072414584320, not with 3000000000.
\<close>

lemma long_delay_wraps:
  "Stall_argument 3000 = 18446744072414584320
   \<and> at_lines {458} (snd (efi_main long_delay_build slow_firmware))
      = [Stall 18446744072414584320]"
  by (simp add: run_defs example_defs)

text \<open>
  C7 (as amended). When the volume-open loop is reached and every one of its
  \<open>NUM_RETRIES + 1\<close> attempts fails, the run returns the error status of the last attempt.
\<close>

theorem retry_exhaustion_returns_last_open_status:
  "(450, OpenVolume Index) \<in> set (snd (efi_main cfg fw))
     \<and> (\<forall>t\<le>NUM_RETRIES cfg. EFI_ERROR (OpenVolumeStatus fw t))
   \<longrightarrow> fst (efi_main cfg fw) = OpenVolumeStatus fw (NUM_RETRIES cfg)
       \<and> EFI_ERROR (fst (efi_main cfg fw))"
proof
  assume a: "(450, OpenVolume Index) \<in> set (snd (efi_main cfg fw))
     \<and> (\<forall>t\<le>NUM_RETRIES cfg. EFI_ERROR (OpenVolumeStatus fw t))"
  then have m: "(450, OpenVolume Index) \<in> set (snd (efi_main cfg fw))" by simp
  from reach_open_volume [OF m] obtain Index' pre where
    r: "efi_main cfg fw = out (emit pre (open_volume cfg fw Index'))" by auto
  from open_volume_loop_schedule [of 0 cfg fw Index'] obtain k where
    k: "k \<le> NUM_RETRIES cfg" and
    x: "EFI_ERROR (OpenVolumeStatus fw k) \<longrightarrow>
          fst (open_volume_loop cfg fw Index' 0) = Inl (OpenVolumeStatus fw k)
          \<and> NUM_RETRIES cfg \<le> k"
    by (auto split: if_splits)
  from a k have "EFI_ERROR (OpenVolumeStatus fw k)" by simp
  with x have "fst (open_volume_loop cfg fw Index' 0) = Inl (OpenVolumeStatus fw k)"
    and "NUM_RETRIES cfg \<le> k" by simp_all
  with k have "fst (open_volume_loop cfg fw Index' 0) = Inl (OpenVolumeStatus fw (NUM_RETRIES cfg))"
    by simp
  then have "fst (open_volume cfg fw Index') = OpenVolumeStatus fw (NUM_RETRIES cfg)"
    by (simp add: open_volume_def)
  with r a show "fst (efi_main cfg fw) = OpenVolumeStatus fw (NUM_RETRIES cfg)
       \<and> EFI_ERROR (fst (efi_main cfg fw))" by simp
qed

theorem retry_exhaustion_returns_last_open_status_witness:
  "(450, OpenVolume 1) \<in> set (snd (efi_main example_build never_ready_firmware))
   \<and> EFI_ERROR (OpenVolumeStatus never_ready_firmware 0)
   \<and> EFI_ERROR (OpenVolumeStatus never_ready_firmware 1)
   \<and> NUM_RETRIES example_build = 1
   \<and> fst (efi_main example_build never_ready_firmware)
      = OpenVolumeStatus never_ready_firmware 1"
proof -
  have a: "(450, OpenVolume 1) \<in> set (snd (efi_main example_build never_ready_firmware))"
    by (simp add: run_defs example_defs)
  have b: "\<forall>t\<le>NUM_RETRIES example_build. EFI_ERROR (OpenVolumeStatus never_ready_firmware t)"
    by (simp add: example_defs EFI_ERROR_def)
  have n: "NUM_RETRIES example_build = 1" by (simp add: example_build_def)
  from a b retry_exhaustion_returns_last_open_status [of 1 example_build never_ready_firmware]
  have "fst (efi_main example_build never_ready_firmware)
      = OpenVolumeStatus never_ready_firmware (NUM_RETRIES example_build)" by blast
  with a b n show ?thesis by simp
qed

text \<open>
  C7 as stated fails: both attempts fail with \<open>EFI_UNSUPPORTED\<close>, and the run returns
  \<open>EFI_UNSUPPORTED\<close>, not \<open>EFI_NOT_FOUND\<close>.
\<close>

theorem retry_exhaustion_counterexample:
  "NUM_RETRIES example_build = 1
   \<and> EFI_ERROR (OpenVolumeStatus never_ready_firmware 0)
   \<and> EFI_ERROR (OpenVolumeStatus never_ready_firmware 1)
   \<and> at_lines {450} (snd (efi_main example_build never_ready_firmware))
      = [OpenVolume 1, OpenVolume 1]
   \<and> fst (efi_main example_build never_ready_firmware) = EFI_UNSUPPORTED
   \<and> fst (efi_main example_build never_ready_firmware) \<noteq> EFI_NOT_FOUND"
  by (simp add: run_defs example_defs)

text \<open>
  C9 (as amended). Take a run that starts the next-stage image, where the start fails. If
  the loaded-image interface of the image opened, the image holds the 12 bytes of
  "bootmgr.dll" with its terminating NUL at an offset \<open>i\<close> with \<open>0x40 \<le> i\<close> and
  \<open>i + 12 < ImageSize\<close>, and the start returned \<open>EFI_NO_MAPPING\<close>, the run prints the
  descriptive message of line 537 and not the "Start failure" of line 539. If the interface
  did not open, or the image holds these 12 bytes at no offset from 0x40 on, or the start
  returned another error, the run prints "Start failure" and not the descriptive message.
\<close>

theorem bootmgr_no_mapping_report:
  "(527, StartImage NextStageLoader) \<in> set (snd (efi_main cfg fw))
     \<and> EFI_ERROR (LoaderStartStatus fw)
   \<longrightarrow> (\<not> EFI_ERROR (LoaderImageStatus fw) \<and> length (LoaderImage fw) < 2 ^ 64
         \<and> (\<exists>i\<ge>0x40. i + 12 < length (LoaderImage fw)
                \<and> take 12 (drop i (LoaderImage fw)) = BootMgrName)
         \<and> LoaderStartStatus fw = EFI_NO_MAPPING
        \<longrightarrow> (537, Print
               ''   Windows bootmgr encountered a security validation or internal error'')
              \<in> set (snd (efi_main cfg fw))
            \<and> (539, PrintError ''  Start failure'') \<notin> set (snd (efi_main cfg fw)))
       \<and> (EFI_ERROR (LoaderImageStatus fw)
           \<or> (12 \<le> length (LoaderImage fw)
               \<and> \<not> (\<exists>i\<ge>0x40. take 12 (drop i (LoaderImage fw)) = BootMgrName))
           \<or> LoaderStartStatus fw \<noteq> EFI_NO_MAPPING
        \<longrightarrow> (539, PrintError ''  Start failure'') \<in> set (snd (efi_main cfg fw))
            \<and> (537, Print
               ''   Windows bootmgr encountered a security validation or internal error'')
              \<notin> set (snd (efi_main cfg fw)))"
proof (intro impI)
  assume a: "(527, StartImage NextStageLoader) \<in> set (snd (efi_main cfg fw))
     \<and> EFI_ERROR (LoaderStartStatus fw)"
  let ?d = "(537, Print
     ''   Windows bootmgr encountered a security validation or internal error'')"
  let ?g = "(539, PrintError ''  Start failure'')"
  let ?w = "fst (inspect_loader fw)"
  from a have m: "(527, StartImage NextStageLoader) \<in> set (snd (efi_main cfg fw))" by simp
  from reach_start_loader [OF m] obtain pre where
    r: "efi_main cfg fw = out (emit pre (start_loader fw ?w))" and
    b: "\<forall>x \<in> set pre. fst x < 527" by auto
  have d: "(?d \<in> set (snd (efi_main cfg fw))) = (?d \<in> set (snd (start_loader fw ?w)))"
    unfolding r by (rule mem_out_emit_iff [OF b]) simp_all
  have g: "(?g \<in> set (snd (efi_main cfg fw))) = (?g \<in> set (snd (start_loader fw ?w)))"
    unfolding r by (rule mem_out_emit_iff [OF b]) simp_all
  from a have sd: "(?d \<in> set (snd (start_loader fw ?w)))
      = (LoaderStartStatus fw = EFI_NO_MAPPING \<and> ?w)"
    and sg: "(?g \<in> set (snd (start_loader fw ?w)))
      = (\<not> (LoaderStartStatus fw = EFI_NO_MAPPING \<and> ?w))"
    by (simp_all add: start_loader_def)
  show "(\<not> EFI_ERROR (LoaderImageStatus fw) \<and> length (LoaderImage fw) < 2 ^ 64
         \<and> (\<exists>i\<ge>0x40. i + 12 < length (LoaderImage fw)
                \<and> take 12 (drop i (LoaderImage fw)) = BootMgrName)
         \<and> LoaderStartStatus fw = EFI_NO_MAPPING
        \<longrightarrow> ?d \<in> set (snd (efi_main cfg fw)) \<and> ?g \<notin> set (snd (efi_main cfg fw)))
       \<and> (EFI_ERROR (LoaderImageStatus fw)
           \<or> (12 \<le> length (LoaderImage fw)
               \<and> \<not> (\<exists>i\<ge>0x40. take 12 (drop i (LoaderImage fw)) = BootMgrName))
           \<or> LoaderStartStatus fw \<noteq> EFI_NO_MAPPING
        \<longrightarrow> ?g \<in> set (snd (efi_main cfg fw)) \<and> ?d \<notin> set (snd (efi_main cfg fw)))"
  proof (intro conjI impI)
    assume h: "\<not> EFI_ERROR (LoaderImageStatus fw) \<and> length (LoaderImage fw) < 2 ^ 64
         \<and> (\<exists>i\<ge>0x40. i + 12 < length (LoaderImage fw)
                \<and> take 12 (drop i (LoaderImage fw)) = BootMgrName)
         \<and> LoaderStartStatus fw = EFI_NO_MAPPING"
    then have "WindowsBootMgr_loop (LoaderImage fw) 0x40"
      using WindowsBootMgr_found [of "LoaderImage fw"] by blast
    with h have w: "?w" by (simp add: inspect_loader_fst)
    from w h d sd show "?d \<in> set (snd (efi_main cfg fw))" by simp
    from w h g sg show "?g \<notin> set (snd (efi_main cfg fw))" by simp
  next
    assume h: "EFI_ERROR (LoaderImageStatus fw)
           \<or> (12 \<le> length (LoaderImage fw)
               \<and> \<not> (\<exists>i\<ge>0x40. take 12 (drop i (LoaderImage fw)) = BootMgrName))
           \<or> LoaderStartStatus fw \<noteq> EFI_NO_MAPPING"
    then have n: "\<not> (LoaderStartStatus fw = EFI_NO_MAPPING \<and> ?w)"
      using WindowsBootMgr_not_found [of "LoaderImage fw"] by (auto simp: inspect_loader_fst)
    from n g sg show "?g \<in> set (snd (efi_main cfg fw))" by simp
    from n d sd show "?d \<notin> set (snd (efi_main cfg fw))" by simp
  qed
qed

theorem bootmgr_no_mapping_report_witness:
  "(527, StartImage NextStageLoader) \<in> set (snd (efi_main example_build no_mapping_firmware))
   \<and> LoaderStartStatus no_mapping_firmware = EFI_NO_MAPPING
   \<and> 0x40 + 12 < length (LoaderImage no_mapping_firmware)
   \<and> take 12 (drop 0x40 (LoaderImage no_mapping_firmware)) = BootMgrName
   \<and> (537, Print ''   Windows bootmgr encountered a security validation or internal error'')
       \<in> set (snd (efi_main example_build no_mapping_firmware))
   \<and> (539, PrintError ''  Start failure'')
       \<notin> set (snd (efi_main example_build no_mapping_firmware))
   \<and> (527, StartImage NextStageLoader) \<in> set (snd (efi_main example_build plain_firmware))
   \<and> (539, PrintError ''  Start failure'') \<in> set (snd (efi_main example_build plain_firmware))"
proof -
  have a: "(527, StartImage NextStageLoader) \<in> set (snd (efi_main example_build no_mapping_firmware))
     \<and> EFI_ERROR (LoaderStartStatus no_mapping_firmware)"
    by (simp add: run_defs example_defs)
  have h: "\<not> EFI_ERROR (LoaderImageStatus no_mapping_firmware)
      \<and> length (LoaderImage no_mapping_firmware) < 2 ^ 64
      \<and> (0x40::nat) \<le> 0x40 \<and> 0x40 + 12 < length (LoaderImage no_mapping_firmware)
      \<and> take 12 (drop 0x40 (LoaderImage no_mapping_firmware)) = BootMgrName
      \<and> LoaderStartStatus no_mapping_firmware = EFI_NO_MAPPING"
    by (simp add: example_defs run_defs)
  have p: "(527, StartImage NextStageLoader) \<in> set (snd (efi_main example_build plain_firmware))
     \<and> EFI_ERROR (LoaderStartStatus plain_firmware)"
    by (simp add: run_defs example_defs)
  have z: "take 12 (drop i (replicate 80 (0::UINT8))) \<noteq> BootMgrName" for i
  proof
    assume e: "take 12 (drop i (replicate 80 (0::UINT8))) = BootMgrName"
    have "(0x62::UINT8) \<in> set BootMgrName" by (simp add: BootMgrName_def)
    with e have "(0x62::UINT8) \<in> set (take 12 (drop i (replicate 80 0)))" by simp
    then have "(0x62::UINT8) \<in> set (replicate 80 (0::UINT8))"
      by (meson in_set_takeD in_set_dropD)
    then show False by simp
  qed
  have q: "12 \<le> length (LoaderImage plain_firmware)
      \<and> \<not> (\<exists>i\<ge>0x40. take 12 (drop i (LoaderImage plain_firmware)) = BootMgrName)"
    using z by (simp add: example_defs)
  from a h bootmgr_no_mapping_report [of example_build no_mapping_firmware]
  have 1: "(537, Print ''   Windows bootmgr encountered a security validation or internal error'')
       \<in> set (snd (efi_main example_build no_mapping_firmware))
     \<and> (539, PrintError ''  Start failure'')
       \<notin> set (snd (efi_main example_build no_mapping_firmware))"
    by blast
  from p q bootmgr_no_mapping_report [of example_build plain_firmware]
  have 2: "(539, PrintError ''  Start failure'') \<in> set (snd (efi_main example_build plain_firmware))"
    by blast
  from a h p 1 2 show ?thesis by blast
qed

text \<open>
  C9 as stated fails. An image that holds the ASCII characters "bootmgr.dll" at offset 0x40,
  followed by a byte other than NUL, and whose start returns \<open>EFI_NO_MAPPING\<close>, gets the
  generic "Start failure": line 519 compares \<open>sizeof(BootMgrName)\<close> = 12 bytes, the NUL
  included. So does an image with the full marker whose loaded-image interface does not
  open (line 516).
\<close>

theorem unterminated_marker_counterexample:
  "take 11 (drop 0x40 (LoaderImage unterminated_firmware)) = map of_char ''bootmgr.dll''
   \<and> \<not> EFI_ERROR (LoaderImageStatus unterminated_firmware)
   \<and> LoaderStartStatus unterminated_firmware = EFI_NO_MAPPING
   \<and> (527, StartImage NextStageLoader) \<in> set (snd (efi_main example_build unterminated_firmware))
   \<and> (539, PrintError ''  Start failure'')
       \<in> set (snd (efi_main example_build unterminated_firmware))
   \<and> (537, Print ''   Windows bootmgr encountered a security validation or internal error'')
       \<notin> set (snd (efi_main example_build unterminated_firmware))
   \<and> take 12 (drop 0x40 (LoaderImage uninspectable_firmware)) = BootMgrName
   \<and> EFI_ERROR (LoaderImageStatus uninspectable_firmware)
   \<and> LoaderStartStatus uninspectable_firmware = EFI_NO_MAPPING
   \<and> (539, PrintError ''  Start failure'')
       \<in> set (snd (efi_main example_build uninspectable_firmware))"
  by (simp add: run_defs example_defs)

text \<open>
  The loop of line 518 stops before the last offset at which 12 bytes still fit: the marker
  in the last 12 bytes of an image is not found.
\<close>

lemma marker_at_image_end:
  "take 12 (drop 0x40 tail_image) = BootMgrName \<and> 0x40 + 12 = length tail_image
   \<and> \<not> WindowsBootMgr_loop tail_image 0x40"
  by (simp add: tail_image_def BootMgrName_def WindowsBootMgr_loop.simps)

text \<open>
  C10. In a run that starts the next-stage image, the status \<open>efi_main\<close> returns is the
  status \<open>StartImage\<close> returned, whatever it is and whatever was printed about it: in
  particular \<open>EFI_NO_MAPPING\<close> when the image was recognized as the Windows boot manager.
\<close>

theorem start_status_returned_unchanged:
  "(527, StartImage NextStageLoader) \<in> set (snd (efi_main cfg fw))
   \<longrightarrow> fst (efi_main cfg fw) = LoaderStartStatus fw"
proof
  assume m: "(527, StartImage NextStageLoader) \<in> set (snd (efi_main cfg fw))"
  from reach_start_loader [OF m] obtain pre where
    r: "efi_main cfg fw = out (emit pre (start_loader fw (fst (inspect_loader fw))))" by auto
  then show "fst (efi_main cfg fw) = LoaderStartStatus fw"
    by (simp add: start_loader_def)
qed

theorem start_status_returned_unchanged_witness:
  "(527, StartImage NextStageLoader) \<in> set (snd (efi_main example_build no_mapping_firmware))
   \<and> fst (inspect_loader no_mapping_firmware)
   \<and> LoaderStartStatus no_mapping_firmware = EFI_NO_MAPPING
   \<and> fst (efi_main example_build no_mapping_firmware) = EFI_NO_MAPPING"
proof -
  have a: "(527, StartImage NextStageLoader) \<in> set (snd (efi_main example_build no_mapping_firmware))"
    by (simp add: run_defs example_defs)
  have b: "fst (inspect_loader no_mapping_firmware)"
    "LoaderStartStatus no_mapping_firmware = EFI_NO_MAPPING"
    by (simp_all add: run_defs example_defs)
  from a b start_status_returned_unchanged [of example_build no_mapping_firmware]
  show ?thesis by simp
qed

end
